theory Spec2Isabelle
  imports Main "HOL-Library.Word" "HOL-Library.Multiset"
begin

unbundle bit_operations_syntax

section \<open>Cells\<close>

text \<open>
  The value kinds of \<^verbatim>\<open>enum Reb_Kind\<close>.  The enum itself is generated at build time;
  the constructors below are the kinds the modelled sources mention.
\<close>

datatype Reb_Kind =
    REB_0 | REB_ACTION | REB_WORD | REB_GROUP | REB_BLOCK | REB_BINARY | REB_TEXT
  | REB_OBJECT | REB_FRAME | REB_MODULE | REB_ERROR | REB_PORT | REB_BAR | REB_VOID
  | REB_BLANK | REB_LOGIC | REB_INTEGER | REB_DECIMAL | REB_PERCENT | REB_MONEY
  | REB_DATATYPE | REB_TYPESET | REB_MAX_NULLED

text \<open>Symbols of the generic actions (\<^verbatim>\<open>VAL_WORD_SYM(verb)\<close>).\<close>

datatype REBSYM =
    SYM_ADD | SYM_SUBTRACT | SYM_MULTIPLY | SYM_DIVIDE | SYM_REMAINDER | SYM_NEGATE
  | SYM_ABSOLUTE | SYM_ROUND | SYM_EVEN_Q | SYM_ODD_Q
  | SYM_FIND | SYM_INTERSECT | SYM_UNION | SYM_DIFFERENCE | SYM_COMPLEMENT
  | SYM_APPEND | SYM_OTHER nat

text \<open>
  The amount of a MONEY! cell, with the five fields \<^verbatim>\<open>VAL_MONEY_AMOUNT\<close> reads
  (\<^verbatim>\<open>m0\<close> from the extra slot, \<^verbatim>\<open>m1\<close>, \<^verbatim>\<open>m2\<close>, \<^verbatim>\<open>s\<close> and \<^verbatim>\<open>e\<close> from the
  payload).
\<close>

record deci =
  deci_m0 :: "32 word"
  deci_m1 :: "32 word"
  deci_m2 :: "32 word"
  deci_s :: bool
  deci_e :: int

text \<open>
  \<^verbatim>\<open>REBDEC\<close> is a C double, carried as its 64-bit pattern; the model never
  does arithmetic on one.
\<close>

type_synonym REBDEC = "64 word"

text \<open>
  The payload union.  Only the member that belongs to the kind byte may be
  read; a read of another member is an assertion failure of the accessor.
\<close>

datatype payload =
    P_None
  | P_Integer int
  | P_Decimal REBDEC
  | P_Money deci
  | P_Text string
  | P_Binary "8 word list"
  | P_Datatype Reb_Kind
  | P_Typeset "64 word"
  | P_Context nat

text \<open>
  A cell: the kind byte and \<^verbatim>\<open>VALUE_FLAG_FALSEY\<close> of the header, the header bits
  under \<^verbatim>\<open>CELL_MASK_PERSIST\<close> (kept by every reset), the extra slot (a pointer:
  the binding, or the symbol that names a typeset; \<open>None\<close> is \<^verbatim>\<open>NULL\<close>), and the
  payload.
\<close>

record RELVAL =
  kind_byte :: Reb_Kind
  flag_falsey :: bool
  persist :: nat
  extra :: "nat option"
  payload :: payload

datatype error =
    Error_Void_Conditional_Raw
  | Error_Bad_Make Reb_Kind RELVAL
  | Error_Invalid RELVAL
  | Error_Math_Args Reb_Kind REBSYM
  | Error_Illegal_Action Reb_Kind REBSYM
  | Error_Bad_Refines_Raw
  | Error_Past_End_Raw
  | Error_Locked_Series_Raw
  | Error_No_Memory nat
  | Error_In_Deci
  | Error_In_Native
  | Assert_Failed
  | Out_Of_Bounds
  | Overlapping_Memcpy

definition VAL_TYPE :: "RELVAL \<Rightarrow> Reb_Kind" where
  "VAL_TYPE v = kind_byte v"

text \<open>
  \<^verbatim>\<open>RESET_VAL_HEADER_EXTRA\<close>: the header keeps the persistent bits only, then
  gets the kind byte and the extra flags.  The only extra flag the modelled
  code passes is \<^verbatim>\<open>VALUE_FLAG_FALSEY\<close>.  \<^verbatim>\<open>RESET_CELL_EXTRA\<close> is the same
  outside the cell-tracking debug build.
\<close>

definition RESET_VAL_HEADER_EXTRA :: "RELVAL \<Rightarrow> Reb_Kind \<Rightarrow> bool \<Rightarrow> RELVAL" where
  "RESET_VAL_HEADER_EXTRA v kind extra_falsey =
     v\<lparr>kind_byte := kind, flag_falsey := extra_falsey\<rparr>"

definition RESET_VAL_HEADER :: "RELVAL \<Rightarrow> Reb_Kind \<Rightarrow> RELVAL" where
  "RESET_VAL_HEADER v kind = RESET_VAL_HEADER_EXTRA v kind False"

definition RESET_CELL_EXTRA :: "RELVAL \<Rightarrow> Reb_Kind \<Rightarrow> bool \<Rightarrow> RELVAL" where
  "RESET_CELL_EXTRA out kind extra_falsey = RESET_VAL_HEADER_EXTRA out kind extra_falsey"

definition RESET_CELL :: "RELVAL \<Rightarrow> Reb_Kind \<Rightarrow> RELVAL" where
  "RESET_CELL out kind = RESET_CELL_EXTRA out kind False"

definition Init_Nulled :: "RELVAL \<Rightarrow> RELVAL" where
  "Init_Nulled out = RESET_CELL_EXTRA out REB_MAX_NULLED True"

definition Init_Void :: "RELVAL \<Rightarrow> RELVAL" where
  "Init_Void out = RESET_CELL out REB_VOID"

definition Init_Blank :: "RELVAL \<Rightarrow> RELVAL" where
  "Init_Blank v = RESET_CELL_EXTRA v REB_BLANK True"

definition Init_Bar :: "RELVAL \<Rightarrow> RELVAL" where
  "Init_Bar out = RESET_CELL out REB_BAR"

definition Init_Logic :: "RELVAL \<Rightarrow> bool \<Rightarrow> RELVAL" where
  "Init_Logic out b = RESET_CELL_EXTRA out REB_LOGIC (if b then False else True)"

text \<open>
  Modelled from the spec: the generated test \<^verbatim>\<open>IS_VOID\<close> is not in the sources;
  like \<^verbatim>\<open>IS_NULLED\<close>, which is, it compares the kind of the cell with its own
  kind.
\<close>

definition IS_VOID :: "RELVAL \<Rightarrow> bool" where
  "IS_VOID v = (VAL_TYPE v = REB_VOID)"

definition IS_NULLED :: "RELVAL \<Rightarrow> bool" where
  "IS_NULLED v = (VAL_TYPE v = REB_MAX_NULLED)"

definition IS_TRUTHY :: "RELVAL \<Rightarrow> error + bool" where
  "IS_TRUTHY v =
     (if flag_falsey v then Inr False
      else if IS_VOID v then Inl Error_Void_Conditional_Raw
      else Inr True)"

definition IS_FALSEY :: "RELVAL \<Rightarrow> error + bool" where
  "IS_FALSEY v = (case IS_TRUTHY v of Inl err \<Rightarrow> Inl err | Inr b \<Rightarrow> Inr (\<not> b))"

definition VAL_LOGIC :: "RELVAL \<Rightarrow> error + bool" where
  "VAL_LOGIC v = (if VAL_TYPE v = REB_LOGIC then Inr (\<not> flag_falsey v) else Inl Assert_Failed)"

text \<open>
  \<^verbatim>\<open>Move_Value\<close>: the header keeps its persistent bits and takes the copied
  bits of the source (kind byte and falsey flag here); payload and extra are
  copied.
\<close>

definition Move_Value :: "RELVAL \<Rightarrow> RELVAL \<Rightarrow> RELVAL" where
  "Move_Value out v =
     out\<lparr>kind_byte := kind_byte v, flag_falsey := flag_falsey v, extra := extra v,
         payload := payload v\<rparr>"

text \<open>A blank cell of the global data, as a starting point for concrete cells.\<close>

definition BLANK_VALUE :: RELVAL where
  "BLANK_VALUE = \<lparr>kind_byte = REB_BLANK, flag_falsey = True, persist = 0, extra = None,
      payload = P_None\<rparr>"

section \<open>MONEY!\<close>

text \<open>
  The deci arithmetic is vendored code outside the modelled sources: every
  routine of it that \<^verbatim>\<open>t-money.c\<close> calls is a field of this record, and the
  functions below take the record as a parameter.  A routine that can fail
  inside (division by zero, overflow, a malformed string) returns a sum.
  \<^verbatim>\<open>string_to_deci\<close> also returns how many characters it consumed (the
  \<^verbatim>\<open>end\<close> pointer).
\<close>

datatype round_flag =
  RF_TO | RF_EVEN | RF_DOWN | RF_HALF_DOWN | RF_FLOOR | RF_CEILING | RF_HALF_CEILING

record deci_funcs =
  int_to_deci :: "int \<Rightarrow> deci"
  decimal_to_deci :: "REBDEC \<Rightarrow> error + deci"
  string_to_deci :: "string \<Rightarrow> error + deci \<times> nat"
  binary_to_deci :: "8 word list \<Rightarrow> deci"
  deci_add :: "deci \<Rightarrow> deci \<Rightarrow> error + deci"
  deci_subtract :: "deci \<Rightarrow> deci \<Rightarrow> error + deci"
  deci_multiply :: "deci \<Rightarrow> deci \<Rightarrow> error + deci"
  deci_divide :: "deci \<Rightarrow> deci \<Rightarrow> error + deci"
  deci_mod :: "deci \<Rightarrow> deci \<Rightarrow> error + deci"
  deci_to_int :: "deci \<Rightarrow> error + int"
  deci_to_decimal :: "deci \<Rightarrow> REBDEC"
  Round_Deci :: "deci \<Rightarrow> round_flag list \<Rightarrow> deci \<Rightarrow> error + deci"
  Analyze_String_For_Scan :: "RELVAL \<Rightarrow> error + string"

definition VAL_MONEY_AMOUNT :: "RELVAL \<Rightarrow> error + deci" where
  "VAL_MONEY_AMOUNT v = (case payload v of P_Money amount \<Rightarrow> Inr amount | _ \<Rightarrow> Inl Assert_Failed)"

definition Init_Money :: "RELVAL \<Rightarrow> deci \<Rightarrow> RELVAL" where
  "Init_Money out amount = (RESET_CELL out REB_MONEY)\<lparr>payload := P_Money amount\<rparr>"

definition VAL_INT64 :: "RELVAL \<Rightarrow> error + int" where
  "VAL_INT64 v = (case payload v of P_Integer i \<Rightarrow> Inr i | _ \<Rightarrow> Inl Assert_Failed)"

definition VAL_DECIMAL :: "RELVAL \<Rightarrow> error + REBDEC" where
  "VAL_DECIMAL v = (case payload v of P_Decimal d \<Rightarrow> Inr d | _ \<Rightarrow> Inl Assert_Failed)"

definition Init_Integer :: "RELVAL \<Rightarrow> int \<Rightarrow> RELVAL" where
  "Init_Integer out i = (RESET_CELL out REB_INTEGER)\<lparr>payload := P_Integer i\<rparr>"

text \<open>
  \<^verbatim>\<open>Bin_To_Money_May_Fail\<close>: at most 12 bytes of the binary are copied to the
  front of a zeroed buffer, moved to the right side of its first 12 bytes
  with \<^verbatim>\<open>memcpy(buf + 12 - len, buf, len)\<close>, and the front is zeroed.  For 7
  to 11 bytes the source and the destination of that \<^verbatim>\<open>memcpy\<close> overlap, which
  C leaves undefined: the error \<open>Overlapping_Memcpy\<close>.  For 12 bytes the copy
  is onto itself.  \<^verbatim>\<open>P_Binary\<close> holds the bytes from the value's index to its
  tail.
\<close>

definition Bin_To_Money_May_Fail :: "deci_funcs \<Rightarrow> RELVAL \<Rightarrow> RELVAL \<Rightarrow> error + RELVAL" where
  "Bin_To_Money_May_Fail ops result val =
     (if VAL_TYPE val \<noteq> REB_BINARY then Inl (Error_Invalid val)
      else case payload val of
        P_Binary bytes \<Rightarrow>
          (let len = (if length bytes > 12 then 12 else length bytes)
           in if 12 - len < len \<and> len < 12 then Inl Overlapping_Memcpy
              else Inr (Init_Money result
                          (binary_to_deci ops (replicate (12 - len) 0 @ take len bytes))))
      | _ \<Rightarrow> Inl Assert_Failed)"

definition MAKE_Money :: "deci_funcs \<Rightarrow> RELVAL \<Rightarrow> Reb_Kind \<Rightarrow> RELVAL \<Rightarrow> error + RELVAL" where
  "MAKE_Money ops out kind arg =
     (if kind \<noteq> REB_MONEY then Inl Assert_Failed
      else case VAL_TYPE arg of
        REB_INTEGER \<Rightarrow>
          (case VAL_INT64 arg of
             Inl err \<Rightarrow> Inl err
           | Inr i \<Rightarrow> Inr (Init_Money out (int_to_deci ops i)))
      | REB_DECIMAL \<Rightarrow>
          (case VAL_DECIMAL arg of
             Inl err \<Rightarrow> Inl err
           | Inr d \<Rightarrow>
               (case decimal_to_deci ops d of
                  Inl err \<Rightarrow> Inl err
                | Inr amount \<Rightarrow> Inr (Init_Money out amount)))
      | REB_PERCENT \<Rightarrow>
          (case VAL_DECIMAL arg of
             Inl err \<Rightarrow> Inl err
           | Inr d \<Rightarrow>
               (case decimal_to_deci ops d of
                  Inl err \<Rightarrow> Inl err
                | Inr amount \<Rightarrow> Inr (Init_Money out amount)))
      | REB_MONEY \<Rightarrow> Inr (Move_Value out arg)
      | REB_TEXT \<Rightarrow>
          (case Analyze_String_For_Scan ops arg of
             Inl err \<Rightarrow> Inl err
           | Inr bp \<Rightarrow>
               (case string_to_deci ops bp of
                  Inl err \<Rightarrow> Inl err
                | Inr (amount, consumed) \<Rightarrow>
                    if consumed = 0 \<or> consumed < length bp
                    then Inl (Error_Bad_Make REB_MONEY arg)
                    else Inr (Init_Money out amount)))
      | REB_BINARY \<Rightarrow> Bin_To_Money_May_Fail ops out arg
      | REB_LOGIC \<Rightarrow>
          (case VAL_LOGIC arg of
             Inl err \<Rightarrow> Inl err
           | Inr b \<Rightarrow> Inr (Init_Money out (int_to_deci ops (if b then 1 else 0))))
      | _ \<Rightarrow> Inl (Error_Bad_Make REB_MONEY arg))"

definition TO_Money :: "deci_funcs \<Rightarrow> RELVAL \<Rightarrow> Reb_Kind \<Rightarrow> RELVAL \<Rightarrow> error + RELVAL" where
  "TO_Money ops out kind arg = MAKE_Money ops out kind arg"

definition Math_Arg_For_Money :: "deci_funcs \<Rightarrow> RELVAL \<Rightarrow> RELVAL \<Rightarrow> REBSYM \<Rightarrow> error + RELVAL" where
  "Math_Arg_For_Money ops store arg verb =
     (if VAL_TYPE arg = REB_MONEY then Inr arg
      else if VAL_TYPE arg = REB_INTEGER then
        (case VAL_INT64 arg of
           Inl err \<Rightarrow> Inl err
         | Inr i \<Rightarrow> Inr (Init_Money store (int_to_deci ops i)))
      else if VAL_TYPE arg = REB_DECIMAL \<or> VAL_TYPE arg = REB_PERCENT then
        (case VAL_DECIMAL arg of
           Inl err \<Rightarrow> Inl err
         | Inr d \<Rightarrow>
             (case decimal_to_deci ops d of
                Inl err \<Rightarrow> Inl err
              | Inr amount \<Rightarrow> Inr (Init_Money store amount)))
      else Inl (Error_Math_Args REB_MONEY verb))"

text \<open>
  The two-argument arithmetic cases of the dispatcher share one shape: coerce
  the second argument into \<^verbatim>\<open>D_OUT\<close>, apply the deci routine, write the result
  with \<^verbatim>\<open>Init_Money\<close>, then fall out of the switch to the final
  \<^verbatim>\<open>RESET_VAL_HEADER(D_OUT, REB_MONEY)\<close>.
\<close>

definition money_binary_op ::
  "deci_funcs \<Rightarrow> (deci \<Rightarrow> deci \<Rightarrow> error + deci) \<Rightarrow> REBSYM \<Rightarrow> RELVAL \<Rightarrow> RELVAL \<Rightarrow> RELVAL
     \<Rightarrow> error + RELVAL" where
  "money_binary_op ops f verb out val arg2 =
     (case Math_Arg_For_Money ops out arg2 verb of
        Inl err \<Rightarrow> Inl err
      | Inr arg \<Rightarrow>
          (case VAL_MONEY_AMOUNT val of
             Inl err \<Rightarrow> Inl err
           | Inr a \<Rightarrow>
               (case VAL_MONEY_AMOUNT arg of
                  Inl err \<Rightarrow> Inl err
                | Inr b \<Rightarrow>
                    (case f a b of
                       Inl err \<Rightarrow> Inl err
                     | Inr c \<Rightarrow> Inr (RESET_VAL_HEADER (Init_Money out c) REB_MONEY)))))"

text \<open>The refinements and the scale argument of ROUND, read from the frame.\<close>

record round_params =
  ref_to :: bool
  ref_even :: bool
  ref_down :: bool
  ref_half_down :: bool
  ref_floor :: bool
  ref_ceiling :: bool
  ref_half_ceiling :: bool
  arg_scale :: RELVAL

definition round_flags :: "round_params \<Rightarrow> round_flag list" where
  "round_flags r =
     (if ref_to r then [RF_TO] else [])
     @ (if ref_even r then [RF_EVEN] else [])
     @ (if ref_down r then [RF_DOWN] else [])
     @ (if ref_half_down r then [RF_HALF_DOWN] else [])
     @ (if ref_floor r then [RF_FLOOR] else [])
     @ (if ref_ceiling r then [RF_CEILING] else [])
     @ (if ref_half_ceiling r then [RF_HALF_CEILING] else [])"

text \<open>A cell as \<^verbatim>\<open>DECLARE_LOCAL\<close> leaves it: prepared, holding no value yet.\<close>

definition DECLARE_LOCAL :: RELVAL where
  "DECLARE_LOCAL = \<lparr>kind_byte = REB_0, flag_falsey = False, persist = 0, extra = None,
      payload = P_None\<rparr>"

definition money_round :: "deci_funcs \<Rightarrow> round_params \<Rightarrow> RELVAL \<Rightarrow> RELVAL \<Rightarrow> error + RELVAL" where
  "money_round ops r out val =
     (let scale = arg_scale r;
          temp_or_err =
            (if ref_to r then
               (if VAL_TYPE scale = REB_INTEGER then
                  (case VAL_INT64 scale of
                     Inl err \<Rightarrow> Inl err
                   | Inr i \<Rightarrow> Inr (Init_Money DECLARE_LOCAL (int_to_deci ops i)))
                else if VAL_TYPE scale = REB_DECIMAL \<or> VAL_TYPE scale = REB_PERCENT then
                  (case VAL_DECIMAL scale of
                     Inl err \<Rightarrow> Inl err
                   | Inr d \<Rightarrow>
                       (case decimal_to_deci ops d of
                          Inl err \<Rightarrow> Inl err
                        | Inr amount \<Rightarrow> Inr (Init_Money DECLARE_LOCAL amount)))
                else if VAL_TYPE scale = REB_MONEY then Inr (Move_Value DECLARE_LOCAL scale)
                else Inl (Error_Invalid scale))
             else Inr (Init_Money DECLARE_LOCAL (int_to_deci ops 0)))
      in case temp_or_err of
        Inl err \<Rightarrow> Inl err
      | Inr temp \<Rightarrow>
          (case VAL_MONEY_AMOUNT val of
             Inl err \<Rightarrow> Inl err
           | Inr a \<Rightarrow>
               (case VAL_MONEY_AMOUNT temp of
                  Inl err \<Rightarrow> Inl err
                | Inr t \<Rightarrow>
                    (case Round_Deci ops a (round_flags r) t of
                       Inl err \<Rightarrow> Inl err
                     | Inr c \<Rightarrow>
                         (let out1 = Init_Money out c in
                          if ref_to r \<and> (VAL_TYPE scale = REB_DECIMAL \<or> VAL_TYPE scale = REB_PERCENT)
                          then Inr ((RESET_CELL out1 (VAL_TYPE scale))
                                      \<lparr>payload := P_Decimal (deci_to_decimal ops c)\<rparr>)
                          else if ref_to r \<and> VAL_TYPE scale = REB_INTEGER
                          then (case deci_to_int ops c of
                                  Inl err \<Rightarrow> Inl err
                                | Inr i64 \<Rightarrow> Inr (Init_Integer out1 i64))
                          else Inr (RESET_VAL_HEADER out1 REB_MONEY))))))"

text \<open>
  \<^verbatim>\<open>REBTYPE(Money)\<close>.  \<^verbatim>\<open>val\<close> is \<^verbatim>\<open>D_ARG(1)\<close>, \<^verbatim>\<open>arg2\<close> is \<^verbatim>\<open>D_ARG(2)\<close>,
  \<^verbatim>\<open>out\<close> is \<^verbatim>\<open>D_OUT\<close>; the result is the cell the dispatcher returns.
\<close>

definition T_Money ::
  "deci_funcs \<Rightarrow> REBSYM \<Rightarrow> round_params \<Rightarrow> RELVAL \<Rightarrow> RELVAL \<Rightarrow> RELVAL \<Rightarrow> error + RELVAL" where
  "T_Money ops verb r out val arg2 =
     (case verb of
        SYM_ADD \<Rightarrow> money_binary_op ops (deci_add ops) verb out val arg2
      | SYM_SUBTRACT \<Rightarrow> money_binary_op ops (deci_subtract ops) verb out val arg2
      | SYM_MULTIPLY \<Rightarrow> money_binary_op ops (deci_multiply ops) verb out val arg2
      | SYM_DIVIDE \<Rightarrow> money_binary_op ops (deci_divide ops) verb out val arg2
      | SYM_REMAINDER \<Rightarrow> money_binary_op ops (deci_mod ops) verb out val arg2
      | SYM_NEGATE \<Rightarrow>
          (case VAL_MONEY_AMOUNT val of
             Inl err \<Rightarrow> Inl err
           | Inr a \<Rightarrow> Inr (Move_Value out (val\<lparr>payload := P_Money (a\<lparr>deci_s := \<not> deci_s a\<rparr>)\<rparr>)))
      | SYM_ABSOLUTE \<Rightarrow>
          (case VAL_MONEY_AMOUNT val of
             Inl err \<Rightarrow> Inl err
           | Inr a \<Rightarrow> Inr (Move_Value out (val\<lparr>payload := P_Money (a\<lparr>deci_s := False\<rparr>)\<rparr>)))
      | SYM_ROUND \<Rightarrow> money_round ops r out val
      | SYM_EVEN_Q \<Rightarrow>
          (case VAL_MONEY_AMOUNT val of
             Inl err \<Rightarrow> Inl err
           | Inr a \<Rightarrow>
               (case deci_to_int ops a of
                  Inl err \<Rightarrow> Inl err
                | Inr i \<Rightarrow> Inr (Init_Logic out (\<not> (i mod 2 = 1)))))
      | SYM_ODD_Q \<Rightarrow>
          (case VAL_MONEY_AMOUNT val of
             Inl err \<Rightarrow> Inl err
           | Inr a \<Rightarrow>
               (case deci_to_int ops a of
                  Inl err \<Rightarrow> Inl err
                | Inr i \<Rightarrow> Inr (Init_Logic out (i mod 2 = 1))))
      | _ \<Rightarrow> Inl (Error_Illegal_Action REB_MONEY verb))"

section \<open>TYPESET!\<close>

text \<open>
  The numeric value of a kind is its position in the generated enum, which is
  not part of the modelled sources: the numbering is the parameter \<open>num\<close>.
  \<^verbatim>\<open>FLAGIT_KIND(t)\<close> is \<^verbatim>\<open>(REBU64)1 << t\<close>.
\<close>

definition FLAGIT_KIND :: "(Reb_Kind \<Rightarrow> nat) \<Rightarrow> Reb_Kind \<Rightarrow> 64 word" where
  "FLAGIT_KIND num t = push_bit (num t) 1"

text \<open>
  Modelled from the spec: \<^verbatim>\<open>VAL_TYPESET_BITS\<close>, \<^verbatim>\<open>INIT_TYPESET_NAME\<close> and
  \<^verbatim>\<open>Init_Datatype\<close> are not in the sources.  A typeset cell holds a 64-bit
  bitmask in its payload and the symbol that names it, if any, in its extra
  slot; a datatype cell holds the kind it stands for (\<^verbatim>\<open>VAL_TYPE_KIND\<close> reads
  it).
\<close>

definition VAL_TYPESET_BITS :: "RELVAL \<Rightarrow> error + 64 word" where
  "VAL_TYPESET_BITS v = (case payload v of P_Typeset bits \<Rightarrow> Inr bits | _ \<Rightarrow> Inl Assert_Failed)"

definition VAL_TYPE_KIND :: "RELVAL \<Rightarrow> error + Reb_Kind" where
  "VAL_TYPE_KIND v = (case payload v of P_Datatype k \<Rightarrow> Inr k | _ \<Rightarrow> Inl Assert_Failed)"

text \<open>
  Modelled from the spec: the macro \<^verbatim>\<open>TYPE_CHECK\<close> is not in the sources.  The
  spec has FIND test whether the type's bit is set in the 64-bit mask.
\<close>

definition TYPE_CHECK :: "(Reb_Kind \<Rightarrow> nat) \<Rightarrow> 64 word \<Rightarrow> Reb_Kind \<Rightarrow> bool" where
  "TYPE_CHECK num bits t = (bits AND FLAGIT_KIND num t \<noteq> 0)"

text \<open>
  \<^verbatim>\<open>Init_Typeset(out, bits, opt_name)\<close>: \<^verbatim>\<open>RESET_CELL\<close>, then the name, then the
  bits.
\<close>

definition Init_Typeset :: "RELVAL \<Rightarrow> 64 word \<Rightarrow> nat option \<Rightarrow> RELVAL" where
  "Init_Typeset out bits opt_name =
     (RESET_CELL out REB_TYPESET)\<lparr>extra := opt_name, payload := P_Typeset bits\<rparr>"

definition Init_Datatype :: "RELVAL \<Rightarrow> Reb_Kind \<Rightarrow> RELVAL" where
  "Init_Datatype out k = (RESET_CELL out REB_DATATYPE)\<lparr>payload := P_Datatype k\<rparr>"

text \<open>
  \<^verbatim>\<open>REBTYPE(Typeset)\<close>.  \<^verbatim>\<open>val\<close> is \<^verbatim>\<open>D_ARG(1)\<close>; \<^verbatim>\<open>arg\<close> is \<^verbatim>\<open>D_ARG(2)\<close>, or
  \<^verbatim>\<open>NULL\<close> (\<open>None\<close>) when the action has one argument.  The result is
  \<open>None\<close> for \<^verbatim>\<open>nullptr\<close>, otherwise the returned cell.  For a DATATYPE!
  argument of the set operations the source writes
  \<^verbatim>\<open>FLAGIT_KIND(VAL_TYPE(arg))\<close> into the argument's payload: the flag of the
  argument's own kind byte, not of \<^verbatim>\<open>VAL_TYPE_KIND(arg)\<close>.
\<close>

definition T_Typeset ::
  "(Reb_Kind \<Rightarrow> nat) \<Rightarrow> REBSYM \<Rightarrow> RELVAL \<Rightarrow> RELVAL \<Rightarrow> RELVAL option \<Rightarrow> error + RELVAL option" where
  "T_Typeset num verb out val arg_opt =
     (if verb = SYM_FIND then
        (case arg_opt of
           None \<Rightarrow> Inl Assert_Failed
         | Some arg \<Rightarrow>
             if VAL_TYPE arg \<noteq> REB_DATATYPE then Inl (Error_Invalid arg)
             else
               (case VAL_TYPESET_BITS val of
                  Inl err \<Rightarrow> Inl err
                | Inr bits \<Rightarrow>
                    (case VAL_TYPE_KIND arg of
                       Inl err \<Rightarrow> Inl err
                     | Inr k \<Rightarrow>
                         if TYPE_CHECK num bits k then Inr (Some (Init_Bar out)) else Inr None)))
      else if verb = SYM_INTERSECT \<or> verb = SYM_UNION \<or> verb = SYM_DIFFERENCE then
        (case arg_opt of
           None \<Rightarrow> Inl Assert_Failed
         | Some arg \<Rightarrow>
             (let arg_bits =
                (if VAL_TYPE arg = REB_DATATYPE then Inr (FLAGIT_KIND num (VAL_TYPE arg))
                 else if VAL_TYPE arg \<noteq> REB_TYPESET then Inl (Error_Invalid arg)
                 else VAL_TYPESET_BITS arg)
              in case arg_bits of
                Inl err \<Rightarrow> Inl err
              | Inr b \<Rightarrow>
                  (case VAL_TYPESET_BITS val of
                     Inl err \<Rightarrow> Inl err
                   | Inr a \<Rightarrow>
                       (let bits' =
                          (if verb = SYM_UNION then a OR b
                           else if verb = SYM_INTERSECT then a AND b
                           else a XOR b)
                        in Inr (Some (Move_Value out (val\<lparr>payload := P_Typeset bits'\<rparr>)))))))
      else if verb = SYM_COMPLEMENT then
        (case VAL_TYPESET_BITS val of
           Inl err \<Rightarrow> Inl err
         | Inr a \<Rightarrow> Inr (Some (Move_Value out (val\<lparr>payload := P_Typeset (NOT a)\<rparr>))))
      else Inl (Error_Illegal_Action REB_TYPESET verb))"

text \<open>
  A sample numbering for concrete evaluation: distinct numbers below 64, in
  the order the constructors are listed.
\<close>

fun sample_num :: "Reb_Kind \<Rightarrow> nat" where
  "sample_num REB_0 = 0"
| "sample_num REB_ACTION = 1"
| "sample_num REB_WORD = 2"
| "sample_num REB_GROUP = 3"
| "sample_num REB_BLOCK = 4"
| "sample_num REB_BINARY = 5"
| "sample_num REB_TEXT = 6"
| "sample_num REB_OBJECT = 7"
| "sample_num REB_FRAME = 8"
| "sample_num REB_MODULE = 9"
| "sample_num REB_ERROR = 10"
| "sample_num REB_PORT = 11"
| "sample_num REB_BAR = 12"
| "sample_num REB_VOID = 13"
| "sample_num REB_BLANK = 14"
| "sample_num REB_LOGIC = 15"
| "sample_num REB_INTEGER = 16"
| "sample_num REB_DECIMAL = 17"
| "sample_num REB_PERCENT = 18"
| "sample_num REB_MONEY = 19"
| "sample_num REB_DATATYPE = 20"
| "sample_num REB_TYPESET = 21"
| "sample_num REB_MAX_NULLED = 22"

section \<open>A sample instance of the deci routines\<close>

text \<open>
  Modelled from the spec: the vendored deci routines are not in the sources.
  The spec describes an amount as an unnormalized decimal: a mantissa split
  across words, a sign and an exponent.  This instance serves the concrete
  evaluations only; the general theorems hold for every instance.  It
  converts integers exactly, and adds, subtracts, multiplies and divides
  amounts of exponent 0 whose result is again a whole amount; everything else
  is reported as an error of the routine.
\<close>

definition deci_mantissa :: "deci \<Rightarrow> nat" where
  "deci_mantissa a = unat (deci_m0 a) + 2 ^ 32 * unat (deci_m1 a) + 2 ^ 64 * unat (deci_m2 a)"

definition deci_of_int :: "int \<Rightarrow> deci" where
  "deci_of_int i =
     \<lparr>deci_m0 = word_of_nat (nat \<bar>i\<bar>),
      deci_m1 = word_of_nat (nat \<bar>i\<bar> div 2 ^ 32),
      deci_m2 = word_of_nat (nat \<bar>i\<bar> div 2 ^ 64),
      deci_s = (i < 0),
      deci_e = 0\<rparr>"

definition deci_to_whole :: "deci \<Rightarrow> error + int" where
  "deci_to_whole a =
     (if deci_e a \<noteq> 0 then Inl Error_In_Deci
      else Inr (if deci_s a then - int (deci_mantissa a) else int (deci_mantissa a)))"

definition whole_op :: "(int \<Rightarrow> int \<Rightarrow> error + int) \<Rightarrow> deci \<Rightarrow> deci \<Rightarrow> error + deci" where
  "whole_op f a b =
     (case deci_to_whole a of
        Inl err \<Rightarrow> Inl err
      | Inr x \<Rightarrow>
          (case deci_to_whole b of
             Inl err \<Rightarrow> Inl err
           | Inr y \<Rightarrow>
               (case f x y of
                  Inl err \<Rightarrow> Inl err
                | Inr z \<Rightarrow> if \<bar>z\<bar> < 2 ^ 96 then Inr (deci_of_int z) else Inl Error_In_Deci)))"

definition whole_divide :: "int \<Rightarrow> int \<Rightarrow> error + int" where
  "whole_divide x y = (if y = 0 \<or> x mod y \<noteq> 0 then Inl Error_In_Deci else Inr (x div y))"

definition whole_add :: "int \<Rightarrow> int \<Rightarrow> error + int" where
  "whole_add x y = Inr (x + y)"

definition whole_subtract :: "int \<Rightarrow> int \<Rightarrow> error + int" where
  "whole_subtract x y = Inr (x - y)"

definition whole_multiply :: "int \<Rightarrow> int \<Rightarrow> error + int" where
  "whole_multiply x y = Inr (x * y)"

definition whole_mod :: "int \<Rightarrow> int \<Rightarrow> error + int" where
  "whole_mod x y = (if y = 0 then Inl Error_In_Deci else Inr (x - y * (sgn x * sgn y * (\<bar>x\<bar> div \<bar>y\<bar>))))"

definition no_decimal :: "REBDEC \<Rightarrow> error + deci" where
  "no_decimal d = Inl Error_In_Deci"

definition no_string :: "string \<Rightarrow> error + deci \<times> nat" where
  "no_string str = Inl Error_In_Deci"

definition no_scan :: "RELVAL \<Rightarrow> error + string" where
  "no_scan v = Inl Error_In_Deci"

definition no_round :: "deci \<Rightarrow> round_flag list \<Rightarrow> deci \<Rightarrow> error + deci" where
  "no_round a flags scale = Inl Error_In_Deci"

definition zero_deci :: "8 word list \<Rightarrow> deci" where
  "zero_deci bytes = deci_of_int 0"

definition some_decimal :: "deci \<Rightarrow> REBDEC" where
  "some_decimal a = 0"

definition sample_deci_funcs :: deci_funcs where
  "sample_deci_funcs =
     \<lparr>int_to_deci = deci_of_int,
      decimal_to_deci = no_decimal,
      string_to_deci = no_string,
      binary_to_deci = zero_deci,
      deci_add = whole_op whole_add,
      deci_subtract = whole_op whole_subtract,
      deci_multiply = whole_op whole_multiply,
      deci_divide = whole_op whole_divide,
      deci_mod = whole_op whole_mod,
      deci_to_int = deci_to_whole,
      deci_to_decimal = some_decimal,
      Round_Deci = no_round,
      Analyze_String_For_Scan = no_scan\<rparr>"

text \<open>The refinements of ROUND all unused, for the calls that are not ROUND.\<close>

definition no_round_params :: round_params where
  "no_round_params =
     \<lparr>ref_to = False, ref_even = False, ref_down = False, ref_half_down = False,
      ref_floor = False, ref_ceiling = False, ref_half_ceiling = False,
      arg_scale = BLANK_VALUE\<rparr>"

text \<open>The money value \<^verbatim>\<open>$10\<close>, as MAKE MONEY! builds it from the integer 10.\<close>

definition ten_dollars :: RELVAL where
  "ten_dollars = Init_Money DECLARE_LOCAL (deci_of_int 10)"

section \<open>PORT!\<close>

text \<open>
  The frame of APPEND as \<^verbatim>\<open>INCLUDE_PARAMS_OF_APPEND\<close> exposes it.
\<close>

record append_frame =
  arg_series :: RELVAL
  arg_value :: RELVAL
  ref_part :: bool
  arg_limit :: RELVAL
  ref_only :: bool
  ref_dup :: bool
  arg_count :: RELVAL
  ref_line :: bool

text \<open>
  \<^verbatim>\<open>Retrigger_Append_As_Write\<close>.  \<^verbatim>\<open>rebRun\<close> is the library's evaluator entry,
  a parameter here: it receives the source text and the spliced cells.
  \<^verbatim>\<open>D_ARG(1)\<close> and \<^verbatim>\<open>D_ARG(2)\<close> are the series and value arguments.
\<close>

definition Retrigger_Append_As_Write ::
  "(string \<Rightarrow> RELVAL list \<Rightarrow> error + RELVAL) \<Rightarrow> append_frame \<Rightarrow> error + RELVAL" where
  "Retrigger_Append_As_Write rebRun frm =
     (if VAL_TYPE (arg_series frm) \<noteq> REB_PORT then Inl Assert_Failed
      else if \<not> (VAL_TYPE (arg_value frm) = REB_BINARY
                 \<or> VAL_TYPE (arg_value frm) = REB_TEXT
                 \<or> VAL_TYPE (arg_value frm) = REB_BLOCK)
      then Inl (Error_Invalid (arg_value frm))
      else if ref_part frm then Inl Error_Bad_Refines_Raw
      else if ref_only frm then Inl Error_Bad_Refines_Raw
      else if ref_dup frm then Inl Error_Bad_Refines_Raw
      else if ref_line frm then Inl Error_Bad_Refines_Raw
      else rebRun ''write/append'' [arg_series frm, arg_value frm])"

section \<open>Contexts\<close>

text \<open>
  A key of a keylist: the typeset cell, the canon of its symbol
  (\<^verbatim>\<open>VAL_KEY_CANON\<close>, a pointer) and whether it is hidden
  (\<^verbatim>\<open>Is_Param_Hidden\<close>).  A context is known by the pointer to its varlist
  (\<^verbatim>\<open>P_Context\<close> in a cell); the heap gives the context's fields from
  \<^verbatim>\<open>CTX_KEYS_HEAD\<close> and \<^verbatim>\<open>CTX_VARS_HEAD\<close> up to the END marker, each key paired
  with its variable (the key count equals the variable count).
\<close>

record REBKEY =
  key_cell :: RELVAL
  key_canon :: nat
  key_hidden :: bool

type_synonym ctx_fields = "(REBKEY \<times> RELVAL) list"

type_synonym ctx_heap = "nat \<Rightarrow> ctx_fields"

text \<open>
  Modelled from the spec: \<^verbatim>\<open>VAL_CONTEXT\<close> is not in the sources; it reads the
  varlist pointer of a context cell.
\<close>

definition VAL_CONTEXT :: "RELVAL \<Rightarrow> error + nat" where
  "VAL_CONTEXT v = (case payload v of P_Context c \<Rightarrow> Inr c | _ \<Rightarrow> Inl Assert_Failed)"

text \<open>The two loops after the main loop: every key that is left must be hidden.\<close>

fun rest_all_hidden :: "ctx_fields \<Rightarrow> bool" where
  "rest_all_hidden [] = True"
| "rest_all_hidden ((key, var) # rest) = (if \<not> key_hidden key then False else rest_all_hidden rest)"

text \<open>
  The main loop of \<^verbatim>\<open>Equal_Context\<close> with its \<^verbatim>\<open>no_advance\<close> label.  The two
  lists are what is left from \<^verbatim>\<open>key1\<close>/\<^verbatim>\<open>var1\<close> and \<^verbatim>\<open>key2\<close>/\<^verbatim>\<open>var2\<close> on;
  an empty list is a key pointer at END.  \<^verbatim>\<open>Cmp_Value\<close> is a parameter (its
  third argument is \<^verbatim>\<open>is_case\<close>).
\<close>

fun Equal_Context_loop ::
  "(RELVAL \<Rightarrow> RELVAL \<Rightarrow> bool \<Rightarrow> int) \<Rightarrow> ctx_fields \<Rightarrow> ctx_fields \<Rightarrow> bool" where
  "Equal_Context_loop Cmp_Value [] fs2 = (rest_all_hidden [] \<and> rest_all_hidden fs2)"
| "Equal_Context_loop Cmp_Value fs1 [] = (rest_all_hidden fs1 \<and> rest_all_hidden [])"
| "Equal_Context_loop Cmp_Value ((key1, var1) # rest1) ((key2, var2) # rest2) =
     (if key_hidden key1 then
        (if rest1 = [] then rest_all_hidden [] \<and> rest_all_hidden ((key2, var2) # rest2)
         else Equal_Context_loop Cmp_Value rest1 ((key2, var2) # rest2))
      else if key_hidden key2 then
        (if rest2 = [] then rest_all_hidden ((key1, var1) # rest1) \<and> rest_all_hidden []
         else Equal_Context_loop Cmp_Value ((key1, var1) # rest1) rest2)
      else if Cmp_Value (key_cell key1) (key_cell key2) False \<noteq> 0 then False
      else if key_canon key1 \<noteq> key_canon key2 then False
      else if Cmp_Value var1 var2 False \<noteq> 0 then False
      else Equal_Context_loop Cmp_Value rest1 rest2)"

definition Equal_Context ::
  "(RELVAL \<Rightarrow> RELVAL \<Rightarrow> bool \<Rightarrow> int) \<Rightarrow> ctx_heap \<Rightarrow> RELVAL \<Rightarrow> RELVAL \<Rightarrow> error + bool" where
  "Equal_Context Cmp_Value heap val arg =
     (if VAL_TYPE arg \<noteq> VAL_TYPE val then Inr False
      else case VAL_CONTEXT val of
        Inl err \<Rightarrow> Inl err
      | Inr f1 \<Rightarrow>
          (case VAL_CONTEXT arg of
             Inl err \<Rightarrow> Inl err
           | Inr f2 \<Rightarrow>
               if f1 = f2 then Inr True
               else Inr (Equal_Context_loop Cmp_Value (heap f1) (heap f2))))"

text \<open>
  The comparison in the spec's words: the visible fields of both sides, in
  sequence, match pairwise in key typeset, key symbol and value.
\<close>

definition visible_fields :: "ctx_fields \<Rightarrow> ctx_fields" where
  "visible_fields fs = filter (\<lambda>(key, var). \<not> key_hidden key) fs"

definition fields_match ::
  "(RELVAL \<Rightarrow> RELVAL \<Rightarrow> bool \<Rightarrow> int) \<Rightarrow> REBKEY \<times> RELVAL \<Rightarrow> REBKEY \<times> RELVAL \<Rightarrow> bool" where
  "fields_match Cmp_Value f1 f2 =
     (Cmp_Value (key_cell (fst f1)) (key_cell (fst f2)) False = 0
      \<and> key_canon (fst f1) = key_canon (fst f2)
      \<and> Cmp_Value (snd f1) (snd f2) False = 0)"

definition visible_fields_match ::
  "(RELVAL \<Rightarrow> RELVAL \<Rightarrow> bool \<Rightarrow> int) \<Rightarrow> ctx_fields \<Rightarrow> ctx_fields \<Rightarrow> bool" where
  "visible_fields_match Cmp_Value fs1 fs2 =
     list_all2 (fields_match Cmp_Value) (visible_fields fs1) (visible_fields fs2)"

text \<open>Concrete contexts for evaluation.\<close>

definition Init_Any_Context :: "RELVAL \<Rightarrow> Reb_Kind \<Rightarrow> nat \<Rightarrow> RELVAL" where
  "Init_Any_Context out kind c = (RESET_CELL out kind)\<lparr>payload := P_Context c\<rparr>"

definition sample_Cmp_Value :: "RELVAL \<Rightarrow> RELVAL \<Rightarrow> bool \<Rightarrow> int" where
  "sample_Cmp_Value a b is_case = (if a = b then 0 else 1)"

definition sample_key :: "nat \<Rightarrow> bool \<Rightarrow> REBKEY" where
  "sample_key canon hidden =
     \<lparr>key_cell = Init_Typeset DECLARE_LOCAL (NOT 0) (Some canon), key_canon = canon, key_hidden = hidden\<rparr>"

definition field_a :: "REBKEY \<times> RELVAL" where
  "field_a = (sample_key 1 False, Init_Integer DECLARE_LOCAL 1)"

definition field_b :: "REBKEY \<times> RELVAL" where
  "field_b = (sample_key 2 False, Init_Integer DECLARE_LOCAL 2)"

definition field_self :: "REBKEY \<times> RELVAL" where
  "field_self = (sample_key 3 True, BLANK_VALUE)"

definition sample_heap :: ctx_heap where
  "sample_heap c = (if c = 1 then [field_a, field_b] else if c = 2 then [field_a, field_b] else [])"

text \<open>
  Concrete inputs for evaluation: a port cell, an evaluator that answers with
  the first spliced cell, and two APPEND frames that use \<^verbatim>\<open>/only\<close>, one
  appending a text and one appending an integer.
\<close>

definition port_cell :: RELVAL where
  "port_cell = RESET_CELL DECLARE_LOCAL REB_PORT"

definition text_cell :: RELVAL where
  "text_cell = (RESET_CELL DECLARE_LOCAL REB_TEXT)\<lparr>payload := P_Text ''data''\<rparr>"

definition sample_rebRun :: "string \<Rightarrow> RELVAL list \<Rightarrow> error + RELVAL" where
  "sample_rebRun source cells = (case cells of [] \<Rightarrow> Inr BLANK_VALUE | c # cs \<Rightarrow> Inr c)"

definition append_only_text :: append_frame where
  "append_only_text =
     \<lparr>arg_series = port_cell, arg_value = text_cell, ref_part = False, arg_limit = BLANK_VALUE,
      ref_only = True, ref_dup = False, arg_count = BLANK_VALUE, ref_line = False\<rparr>"

definition append_only_integer :: append_frame where
  "append_only_integer =
     \<lparr>arg_series = port_cell, arg_value = Init_Integer DECLARE_LOCAL 1, ref_part = False,
      arg_limit = BLANK_VALUE, ref_only = True, ref_dup = False, arg_count = BLANK_VALUE,
      ref_line = False\<rparr>"

definition sample_object :: "nat \<Rightarrow> RELVAL" where
  "sample_object c = Init_Any_Context DECLARE_LOCAL REB_OBJECT c"

section \<open>The host console loop\<close>

text \<open>
  The evaluator and dispatcher hooks (\<^verbatim>\<open>PG_Eval\<close>, \<^verbatim>\<open>PG_Dispatcher\<close>) are
  function pointers: the core functions, or something a tracing facility
  installed.  With the two trace counters that PARSE reads they are the
  state that running code can change.
\<close>

datatype eval_hook = Eval_Core | Eval_Custom nat

datatype dispatcher_hook = Dispatcher_Core | Dispatcher_Custom nat

record hooks =
  PG_Eval :: eval_hook
  PG_Dispatcher :: dispatcher_hook
  Trace_Level :: int
  Trace_Depth :: int

definition core_hooks :: hooks where
  "core_hooks =
     \<lparr>PG_Eval = Eval_Core, PG_Dispatcher = Dispatcher_Core, Trace_Level = 0, Trace_Depth = 0\<rparr>"

text \<open>
  The state of \<^verbatim>\<open>main\<close> inside its loop: the global \<^verbatim>\<open>ctrl_c_enabled\<close>, the
  hooks in force, the saved hooks (\<^verbatim>\<open>saved_eval_hook\<close>,
  \<^verbatim>\<open>saved_dispatcher_hook\<close>, \<^verbatim>\<open>Save_Trace_Level\<close>, \<^verbatim>\<open>Save_Trace_Depth\<close>),
  \<^verbatim>\<open>no_recover\<close>, and the \<^verbatim>\<open>code\<close> and \<^verbatim>\<open>result\<close> handed to the next call of
  HOST-CONSOLE (\<open>None\<close> is a null result).
\<close>

record host_state =
  ctrl_c_enabled :: bool
  cur_hooks :: hooks
  saved_hooks :: hooks
  no_recover :: bool
  code :: RELVAL
  result :: "RELVAL option"

text \<open>
  What \<^verbatim>\<open>lib/entrap\<close> of the HOST-CONSOLE call gives back: an ERROR!, or a
  block whose first element is the instruction.
\<close>

datatype trapped = Trapped_Error RELVAL | Trapped_Block RELVAL

text \<open>
  One execution of \<^verbatim>\<open>Run_Sandboxed_Code\<close>, as the loop performed it: the code,
  whether Ctrl-C was enabled while it ran, and the hooks in force when it
  started.
\<close>

record exec =
  exec_code :: RELVAL
  exec_ctrl_c :: bool
  exec_hooks :: hooks

text \<open>
  How a pass ends.  \<^verbatim>\<open>main\<close> keeps the exit status in a C \<^verbatim>\<open>int\<close> of 32 bits
  (\<^verbatim>\<open>int exit_status = rebUnboxInteger(...)\<close>): \<open>Host_Exit\<close> carries a status in
  that range.  For an INTEGER! outside it the status is whatever the
  conversion to \<^verbatim>\<open>int\<close> makes of it, which C leaves to the implementation;
  that outcome is \<open>Host_Exit_Out_Of_Range\<close> with the integer asked for.
\<close>

datatype outcome =
    Host_Exit int
  | Host_Exit_Out_Of_Range int
  | Host_Panic RELVAL
  | Host_Assert_Failed
  | Host_Next host_state "exec option"

definition Disable_Ctrl_C :: "host_state \<Rightarrow> error + host_state" where
  "Disable_Ctrl_C st =
     (if \<not> ctrl_c_enabled st then Inl Assert_Failed else Inr (st\<lparr>ctrl_c_enabled := False\<rparr>))"

definition Enable_Ctrl_C :: "host_state \<Rightarrow> error + host_state" where
  "Enable_Ctrl_C st =
     (if ctrl_c_enabled st then Inl Assert_Failed else Inr (st\<lparr>ctrl_c_enabled := True\<rparr>))"

text \<open>The block \<^verbatim>\<open>[#host-console-error]\<close> the loop hands back after a failure.\<close>

definition host_console_error :: RELVAL where
  "host_console_error = RESET_CELL DECLARE_LOCAL REB_BLOCK"

text \<open>
  One pass through the body of \<^verbatim>\<open>while (true)\<close> in \<^verbatim>\<open>main\<close>, from the call of
  HOST-CONSOLE to the bottom of the loop.  \<open>console\<close> is the HOST-CONSOLE
  action under \<^verbatim>\<open>lib/entrap\<close> and \<open>run\<close> is \<^verbatim>\<open>Run_Sandboxed_Code\<close> under
  \<^verbatim>\<open>rebRescue\<close>; both run interpreted code, so both are parameters that may
  change the hooks.  The \<^verbatim>\<open>goto recover\<close> of the error case is the next pass
  (the assertion it jumps over holds there, Ctrl-C being still disabled).
\<close>

definition host_loop_body ::
  "(RELVAL \<Rightarrow> RELVAL option \<Rightarrow> hooks \<Rightarrow> trapped \<times> hooks)
     \<Rightarrow> (RELVAL \<Rightarrow> hooks \<Rightarrow> RELVAL option \<times> hooks) \<Rightarrow> host_state \<Rightarrow> outcome" where
  "host_loop_body console run st =
     (if ctrl_c_enabled st then Host_Assert_Failed
      else case console (code st) (result st) (cur_hooks st) of
        (Trapped_Error err, h1) \<Rightarrow>
          if no_recover st then Host_Panic err
          else Host_Next (st\<lparr>cur_hooks := h1, code := host_console_error, result := Some err,
                               no_recover := True\<rparr>) None
      | (Trapped_Block c, h1) \<Rightarrow>
          if VAL_TYPE c = REB_INTEGER then
            (case VAL_INT64 c of
               Inl err \<Rightarrow> Host_Assert_Failed
             | Inr i \<Rightarrow>
                 if - (2 ^ 31) \<le> i \<and> i < 2 ^ 31 then Host_Exit i else Host_Exit_Out_Of_Range i)
          else
            (let is_console_instruction = (VAL_TYPE c = REB_BLOCK);
                 st1 = st\<lparr>cur_hooks := h1, code := c\<rparr>;
                 st2 = (if \<not> is_console_instruction
                        then st1\<lparr>no_recover := False, cur_hooks := saved_hooks st1\<rparr>
                        else st1)
             in case Enable_Ctrl_C st2 of
               Inl err \<Rightarrow> Host_Assert_Failed
             | Inr st3 \<Rightarrow>
                 (case run c (cur_hooks st3) of
                    (res, h2) \<Rightarrow>
                      (case Disable_Ctrl_C (st3\<lparr>result := res, cur_hooks := h2\<rparr>) of
                         Inl err \<Rightarrow> Host_Assert_Failed
                       | Inr st5 \<Rightarrow>
                           Host_Next
                             (if \<not> is_console_instruction
                              then st5\<lparr>saved_hooks := cur_hooks st5, cur_hooks := core_hooks\<rparr>
                              else st5)
                             (Some \<lparr>exec_code = c, exec_ctrl_c = ctrl_c_enabled st3,
                                    exec_hooks = cur_hooks st3\<rparr>)))))"









section \<open>SAVE\<close>

text \<open>
  The values SAVE handles, as far as its own code looks into them: the items
  of a header block, the value to save, and the data being built, which is a
  text until a step turns it into a binary.
\<close>

datatype hitem =
    H_Word string
  | H_Set_Word string
  | H_Logic bool
  | H_Integer int
  | H_Text string
  | H_Binary "8 word list"
  | H_Block "hitem list"

datatype sdata = D_Text string | D_Binary "8 word list"

datatype save_where =
    W_File string | W_Url string | W_Binary "8 word list" | W_Text string | W_Blank

datatype save_method = M_Blank | M_Logic bool | M_Word string

text \<open>
  The arguments and locals of \<^verbatim>\<open>save\<close> (\<open>None\<close> is blank).  The /length
  refinement shares its word with the local that later holds the header's
  length entry; \<open>sv_length\<close> is whether that word is truthy.
\<close>

record save_frame =
  sv_where :: save_where
  sv_value :: hitem
  sv_header :: bool
  sv_header_data :: "hitem option"
  sv_all :: bool
  sv_length :: bool
  sv_compress :: bool
  sv_method :: save_method

text \<open>
  The natives and mezzanines \<^verbatim>\<open>save\<close> calls are parameters: MOLD (with /all or
  not, always /only), TO-BINARY of a text (its UTF-8 bytes), CHECKSUM/SECURE,
  GZIP, \<^verbatim>\<open>mold64\<close>, FIND of a word in a block (the index of the match),
  \<^verbatim>\<open>file-type?\<close>, and the whole "Handle the header object" block, which turns
  the header into the body block of an object and settles compress, method
  and length from it.
\<close>

record save_natives =
  nat_mold :: "bool \<Rightarrow> hitem \<Rightarrow> string"
  nat_mold_header :: "hitem list \<Rightarrow> string"
  nat_to_binary :: "string \<Rightarrow> 8 word list"
  nat_checksum_secure :: "8 word list \<Rightarrow> 8 word list"
  nat_gzip :: "sdata \<Rightarrow> 8 word list"
  nat_mold64 :: "sdata \<Rightarrow> string"
  nat_find :: "hitem list \<Rightarrow> string \<Rightarrow> nat option"
  nat_file_type :: "save_where \<Rightarrow> string option"
  nat_handle_header :: "save_frame \<Rightarrow> error + save_frame"

datatype save_result =
    Codec_Written save_where string hitem
  | Written save_where "8 word list"
  | Returned "8 word list"
  | Inserted_At_Tail save_where "8 word list"

definition newline :: char where
  "newline = CHR 0x0A"

text \<open>CHANGE at a position of a block: replaces the item there, appends at the tail.\<close>

definition change_at :: "hitem list \<Rightarrow> nat \<Rightarrow> hitem \<Rightarrow> hitem list" where
  "change_at items pos v = (if pos < length items then items[pos := v] else items @ [v])"

text \<open>
  \<^verbatim>\<open>data: either all_SAVE [mold/all/only :value] [mold/only :value]\<close> and
  \<^verbatim>\<open>append data newline\<close>.
\<close>

definition save_molded :: "save_natives \<Rightarrow> save_frame \<Rightarrow> string" where
  "save_molded nv fr = nat_mold nv (sv_all fr) (sv_value fr) @ [newline]"

text \<open>
  The clauses of the \<^verbatim>\<open>case/all\<close>, each a step on the pair of \<^verbatim>\<open>data\<close> and
  \<^verbatim>\<open>header-data\<close>; \<^verbatim>\<open>case/all\<close> runs every clause whose condition holds, in
  order.
\<close>

definition step_checksum ::
  "save_natives \<Rightarrow> sdata \<times> hitem option \<Rightarrow> error + sdata \<times> hitem option" where
  "step_checksum nv st =
     (case st of
        (d, Some (H_Block items)) \<Rightarrow>
          (case nat_find nv items ''checksum'' of
             None \<Rightarrow> Inr st
           | Some tmp \<Rightarrow>
               (case d of
                  D_Text str \<Rightarrow>
                    (let bin = nat_to_binary nv str
                     in Inr (D_Binary bin,
                             Some (H_Block (change_at items (tmp + 1)
                                              (H_Binary (nat_checksum_secure nv bin))))))
                | D_Binary bin \<Rightarrow>
                    Inr (D_Binary bin,
                         Some (H_Block (change_at items (tmp + 1)
                                          (H_Binary (nat_checksum_secure nv bin)))))))
      | (d, Some other) \<Rightarrow> Inl Error_In_Native
      | (d, None) \<Rightarrow> Inr st)"

definition step_compress :: "save_natives \<Rightarrow> bool \<Rightarrow> sdata \<times> hitem option \<Rightarrow> sdata \<times> hitem option" where
  "step_compress nv compress st = (if compress then (D_Binary (nat_gzip nv (fst st)), snd st) else st)"

definition step_script ::
  "save_natives \<Rightarrow> save_method \<Rightarrow> sdata \<times> hitem option \<Rightarrow> sdata \<times> hitem option" where
  "step_script nv method st =
     (if method = M_Word ''script'' then (D_Text (nat_mold64 nv (fst st)), snd st) else st)"

definition step_to_binary :: "save_natives \<Rightarrow> sdata \<times> hitem option \<Rightarrow> sdata \<times> hitem option" where
  "step_to_binary nv st =
     (case fst st of D_Text str \<Rightarrow> (D_Binary (nat_to_binary nv str), snd st) | D_Binary bin \<Rightarrow> st)"

definition step_length ::
  "save_natives \<Rightarrow> bool \<Rightarrow> sdata \<times> hitem option \<Rightarrow> error + sdata \<times> hitem option" where
  "step_length nv len st =
     (if \<not> len then Inr st
      else case st of
        (D_Binary bin, Some (H_Block items)) \<Rightarrow>
          (case nat_find nv items ''length'' of
             None \<Rightarrow> Inl Error_In_Native
           | Some pos \<Rightarrow>
               Inr (D_Binary bin,
                    Some (H_Block (change_at items (pos + 1) (H_Integer (int (length bin)))))))
      | _ \<Rightarrow> Inl Error_In_Native)"

definition step_header :: "save_natives \<Rightarrow> sdata \<times> hitem option \<Rightarrow> error + 8 word list" where
  "step_header nv st =
     (case st of
        (D_Binary bin, None) \<Rightarrow> Inr bin
      | (D_Binary bin, Some (H_Block items)) \<Rightarrow>
          Inr (nat_to_binary nv (''REBOL'' @ '' '' @ nat_mold_header nv items @ [newline]) @ bin)
      | _ \<Rightarrow> Inl Error_In_Native)"

text \<open>
  From the MOLD to the end of the \<^verbatim>\<open>case/all\<close>: the bytes to store, and the
  header as the steps left it.
\<close>

definition save_encode :: "save_natives \<Rightarrow> save_frame \<Rightarrow> error + 8 word list \<times> hitem option" where
  "save_encode nv fr =
     (case step_checksum nv (D_Text (save_molded nv fr), sv_header_data fr) of
        Inl err \<Rightarrow> Inl err
      | Inr st1 \<Rightarrow>
          (let st2 = step_compress nv (sv_compress fr) st1;
               st3 = step_script nv (sv_method fr) st2;
               st4 = step_to_binary nv st3
           in case step_length nv (sv_length fr) st4 of
             Inl err \<Rightarrow> Inl err
           | Inr st5 \<Rightarrow>
               (case step_header nv st5 of
                  Inl err \<Rightarrow> Inl err
                | Inr bytes \<Rightarrow> Inr (bytes, snd st5))))"

definition method_truthy :: "save_method \<Rightarrow> bool" where
  "method_truthy m = (case m of M_Blank \<Rightarrow> False | M_Logic b \<Rightarrow> b | M_Word w \<Rightarrow> True)"

definition is_file_or_url :: "save_where \<Rightarrow> bool" where
  "is_file_or_url w = (case w of W_File f \<Rightarrow> True | W_Url u \<Rightarrow> True | _ \<Rightarrow> False)"

definition header_truthy :: "hitem option \<Rightarrow> bool" where
  "header_truthy h = (case h of None \<Rightarrow> False | Some (H_Logic b) \<Rightarrow> b | Some other \<Rightarrow> True)"

text \<open>
  \<^verbatim>\<open>save\<close>: the codec shortcut for a file or URL whose type is not \<^verbatim>\<open>rebol\<close>
  (no MOLD happens there), the forced header for /length and /compress, the
  header handling, the encoding, and the output by the kind of \<^verbatim>\<open>where\<close>.
\<close>

definition save :: "save_natives \<Rightarrow> save_frame \<Rightarrow> error + save_result" where
  "save nv fr =
     (case (if \<not> sv_header fr \<and> is_file_or_url (sv_where fr)
            then (case nat_file_type nv (sv_where fr) of
                    None \<Rightarrow> None
                  | Some type \<Rightarrow> if type \<noteq> ''rebol'' then Some type else None)
            else None) of
        Some type \<Rightarrow> Inr (Codec_Written (sv_where fr) type (sv_value fr))
      | None \<Rightarrow>
          (let fr1 = (if sv_length fr \<or> method_truthy (sv_method fr)
                      then fr\<lparr>sv_header := True,
                              sv_header_data :=
                                (case sv_header_data fr of
                                   None \<Rightarrow> Some (H_Block [])
                                 | Some h \<Rightarrow> Some h)\<rparr>
                      else fr)
           in case (if header_truthy (sv_header_data fr1) then nat_handle_header nv fr1
                    else Inr fr1) of
             Inl err \<Rightarrow> Inl err
           | Inr fr2 \<Rightarrow>
               (case save_encode nv fr2 of
                  Inl err \<Rightarrow> Inl err
                | Inr (bytes, hdr) \<Rightarrow>
                    Inr (case sv_where fr2 of
                           W_File f \<Rightarrow> Written (sv_where fr2) bytes
                         | W_Url u \<Rightarrow> Written (sv_where fr2) bytes
                         | W_Blank \<Rightarrow> Returned bytes
                         | _ \<Rightarrow> Inserted_At_Tail (sv_where fr2) bytes))))"

text \<open>
  A sample instance of the natives for concrete evaluation: a text molds to
  itself, a character's byte is its code, the checksum is the byte count,
  GZIP reverses the bytes, base-64 molding is a fixed text, FIND matches a word
  or set-word of the spelling, and the header block is left as given.
\<close>

definition sample_mold :: "bool \<Rightarrow> hitem \<Rightarrow> string" where
  "sample_mold all_flag v = (case v of H_Text str \<Rightarrow> str | _ \<Rightarrow> ''value'')"

definition sample_mold_header :: "hitem list \<Rightarrow> string" where
  "sample_mold_header items = ''[]''"

definition sample_to_binary :: "string \<Rightarrow> 8 word list" where
  "sample_to_binary str = map of_char str"

definition sample_checksum :: "8 word list \<Rightarrow> 8 word list" where
  "sample_checksum bin = [word_of_nat (length bin)]"

definition sample_gzip :: "sdata \<Rightarrow> 8 word list" where
  "sample_gzip d = (case d of D_Text str \<Rightarrow> rev (sample_to_binary str) | D_Binary bin \<Rightarrow> rev bin)"

definition sample_mold64 :: "sdata \<Rightarrow> string" where
  "sample_mold64 d = ''64#{}''"

fun sample_find :: "hitem list \<Rightarrow> string \<Rightarrow> nat option" where
  "sample_find [] w = None"
| "sample_find (x # xs) w =
     (if x = H_Word w \<or> x = H_Set_Word w then Some 0
      else case sample_find xs w of None \<Rightarrow> None | Some n \<Rightarrow> Some (Suc n))"

definition sample_file_type :: "save_where \<Rightarrow> string option" where
  "sample_file_type w = None"

definition sample_handle_header :: "save_frame \<Rightarrow> error + save_frame" where
  "sample_handle_header fr = Inr fr"

definition sample_natives :: save_natives where
  "sample_natives =
     \<lparr>nat_mold = sample_mold, nat_mold_header = sample_mold_header,
      nat_to_binary = sample_to_binary, nat_checksum_secure = sample_checksum,
      nat_gzip = sample_gzip, nat_mold64 = sample_mold64, nat_find = sample_find,
      nat_file_type = sample_file_type, nat_handle_header = sample_handle_header\<rparr>"

definition sample_save_frame :: save_frame where
  "sample_save_frame =
     \<lparr>sv_where = W_Blank, sv_value = H_Text ''ab'', sv_header = True,
      sv_header_data = Some (H_Block [H_Set_Word ''checksum'', H_Logic True]),
      sv_all = False, sv_length = False, sv_compress = True, sv_method = M_Logic True\<rparr>"

definition sample_length_frame :: save_frame where
  "sample_length_frame =
     \<lparr>sv_where = W_Blank, sv_value = H_Text ''ab'', sv_header = True,
      sv_header_data = Some (H_Block [H_Set_Word ''length'', H_Logic True]),
      sv_all = False, sv_length = True, sv_compress = False, sv_method = M_Blank\<rparr>"

section \<open>Series\<close>

text \<open>
  Modelled from the spec: the declaration of \<^verbatim>\<open>REBCNT\<close> is not among the
  sources.  It is an unsigned count of 32 bits (the guard of \<^verbatim>\<open>Expand_Series\<close>
  on bit 31 of a delta speaks of a 2GB maximum), so a sum or product of
  counts is taken modulo \<open>2 ^ 32\<close>, and so is a difference.  Every variable
  and field of that type holds the wrapped value of the expression assigned
  to it.  Pointers are 64 bits wide: adding a count to a pointer does not
  wrap.
\<close>

definition REBCNT :: "nat \<Rightarrow> nat" where
  "REBCNT n = n mod 2 ^ 32"

definition minus_REBCNT :: "nat \<Rightarrow> nat \<Rightarrow> nat" where
  "minus_REBCNT a b = REBCNT (a + 2 ^ 32 - REBCNT b)"

text \<open>
  Memory is modelled block by block: a block is the list of its bytes, and a
  pointer into it is an offset.  A read or write that leaves the block is
  undefined in C; here it is the error \<open>Out_Of_Bounds\<close>.
\<close>

definition read_at :: "8 word list \<Rightarrow> nat \<Rightarrow> nat \<Rightarrow> 8 word list option" where
  "read_at buf off n = (if off + n \<le> length buf then Some (take n (drop off buf)) else None)"

definition write_at :: "8 word list \<Rightarrow> nat \<Rightarrow> 8 word list \<Rightarrow> 8 word list option" where
  "write_at buf off bytes =
     (if off + length bytes \<le> length buf
      then Some (take off buf @ bytes @ drop (off + length bytes) buf)
      else None)"

text \<open>\<^verbatim>\<open>memcpy(dst + d, src + s, n)\<close>; \<^verbatim>\<open>memmove\<close> is the same with one block.\<close>

definition memcpy :: "8 word list \<Rightarrow> nat \<Rightarrow> 8 word list \<Rightarrow> nat \<Rightarrow> nat \<Rightarrow> 8 word list option" where
  "memcpy dst d src s n = (case read_at src s n of None \<Rightarrow> None | Some bytes \<Rightarrow> write_at dst d bytes)"

definition memmove :: "8 word list \<Rightarrow> nat \<Rightarrow> nat \<Rightarrow> nat \<Rightarrow> 8 word list option" where
  "memmove buf d s n = memcpy buf d buf s n"

text \<open>
  \<^verbatim>\<open>struct Reb_Series_Dynamic\<close>: \<open>dyn_alloc\<close> is the block the allocator
  returned and \<open>dyn_data\<close> the offset of \<^verbatim>\<open>data\<close> in it; \<open>dyn_bias\<close> is the
  \<^verbatim>\<open>bias\<close> field, which holds the bias in its upper 16 bits.
\<close>

record Reb_Series_Dynamic =
  dyn_alloc :: "8 word list"
  dyn_data :: nat
  dyn_len :: nat
  dyn_rest :: nat
  dyn_bias :: nat

text \<open>
  \<^verbatim>\<open>union Reb_Series_Content\<close> with \<^verbatim>\<open>LEN_BYTE_OR_255\<close>: the dynamic tracking
  structure when that byte is 255, otherwise the bytes embedded in the node,
  with the length the byte holds.
\<close>

datatype Reb_Series_Content =
    Dynamic Reb_Series_Dynamic
  | Fixed nat "8 word list"

record REBSER =
  wide_byte :: nat
  flag_fixed_size :: bool
  flag_power_of_2 :: bool
  content :: Reb_Series_Content

text \<open>
  Modelled from the spec: a cell is four machine-word slots; a 64-bit
  platform is taken, so \<^verbatim>\<open>sizeof(REBVAL)\<close> is 32, and so is the size of the
  content union, which holds one cell.
\<close>

definition sizeof_REBVAL :: nat where
  "sizeof_REBVAL = 32"

definition sizeof_content :: nat where
  "sizeof_content = sizeof_REBVAL"

definition IS_SER_ARRAY :: "REBSER \<Rightarrow> bool" where
  "IS_SER_ARRAY s = (wide_byte s = 0)"

definition LEN_BYTE_OR_255 :: "REBSER \<Rightarrow> nat" where
  "LEN_BYTE_OR_255 s = (case content s of Dynamic d \<Rightarrow> 255 | Fixed n bytes \<Rightarrow> n)"

definition IS_SER_DYNAMIC :: "REBSER \<Rightarrow> bool" where
  "IS_SER_DYNAMIC s = (LEN_BYTE_OR_255 s = 255)"

definition SER_WIDE :: "REBSER \<Rightarrow> nat" where
  "SER_WIDE s = (if wide_byte s = 0 then sizeof_REBVAL else wide_byte s)"

definition SER_BIAS :: "REBSER \<Rightarrow> error + nat" where
  "SER_BIAS s =
     (case content s of
        Dynamic d \<Rightarrow> Inr ((dyn_bias d div 2 ^ 16) mod 2 ^ 16)
      | Fixed n bytes \<Rightarrow> Inl Assert_Failed)"

definition SER_REST :: "REBSER \<Rightarrow> error + nat" where
  "SER_REST s =
     (case content s of
        Dynamic d \<Rightarrow> Inr (dyn_rest d)
      | Fixed n bytes \<Rightarrow>
          if IS_SER_ARRAY s then Inr 2
          else if sizeof_content mod SER_WIDE s \<noteq> 0 then Inl Assert_Failed
          else Inr (sizeof_content div SER_WIDE s))"

definition SER_SUB_BIAS :: "REBSER \<Rightarrow> nat \<Rightarrow> error + REBSER" where
  "SER_SUB_BIAS s b =
     (case content s of
        Dynamic d \<Rightarrow>
          Inr (s\<lparr>content := Dynamic
                 (d\<lparr>dyn_bias := minus_REBCNT (dyn_bias d) (REBCNT (b * 2 ^ 16))\<rparr>)\<rparr>)
      | Fixed n bytes \<Rightarrow> Inl Assert_Failed)"

definition SER_TOTAL :: "REBSER \<Rightarrow> error + nat" where
  "SER_TOTAL s =
     (case SER_REST s of
        Inl err \<Rightarrow> Inl err
      | Inr r \<Rightarrow>
          (case SER_BIAS s of
             Inl err \<Rightarrow> Inl err
           | Inr b \<Rightarrow> Inr (REBCNT (REBCNT (r + b) * SER_WIDE s))))"

text \<open>
  Modelled from the spec: \<^verbatim>\<open>SER_LEN\<close>, \<^verbatim>\<open>SET_SERIES_LEN\<close>, \<^verbatim>\<open>SER_DATA_RAW\<close> and
  \<^verbatim>\<open>TERM_SERIES\<close> are not in the sources.  The length is the \<^verbatim>\<open>len\<close> field of
  a dynamic series and the length byte of an embedded one; the data is the
  dynamic \<^verbatim>\<open>data\<close> pointer or the embedded content.  An array is terminated
  by an END marker one past its length (\<^verbatim>\<open>SET_END\<close>: the second byte of the
  cell becomes \<^verbatim>\<open>REB_0_END\<close>), which for an embedded array of length 1 is the
  info word after the content and needs no write; any other series is
  terminated by one element of zero bytes.  The place of an element is the
  data pointer advanced by that many elements, which is pointer arithmetic.
\<close>

definition SER_LEN :: "REBSER \<Rightarrow> nat" where
  "SER_LEN s = (case content s of Dynamic d \<Rightarrow> dyn_len d | Fixed n bytes \<Rightarrow> n)"

definition SET_SERIES_LEN :: "REBSER \<Rightarrow> nat \<Rightarrow> error + REBSER" where
  "SET_SERIES_LEN s len =
     (case content s of
        Dynamic d \<Rightarrow> Inr (s\<lparr>content := Dynamic (d\<lparr>dyn_len := len\<rparr>)\<rparr>)
      | Fixed n bytes \<Rightarrow>
          if len < sizeof_content then Inr (s\<lparr>content := Fixed len bytes\<rparr>) else Inl Assert_Failed)"

definition SER_DATA_RAW :: "REBSER \<Rightarrow> 8 word list \<times> nat" where
  "SER_DATA_RAW s = (case content s of Dynamic d \<Rightarrow> (dyn_alloc d, dyn_data d) | Fixed n bytes \<Rightarrow> (bytes, 0))"

definition set_data_block :: "REBSER \<Rightarrow> 8 word list \<Rightarrow> REBSER" where
  "set_data_block s buf =
     (case content s of
        Dynamic d \<Rightarrow> s\<lparr>content := Dynamic (d\<lparr>dyn_alloc := buf\<rparr>)\<rparr>
      | Fixed n bytes \<Rightarrow> s\<lparr>content := Fixed n buf\<rparr>)"

definition TERM_SERIES :: "REBSER \<Rightarrow> error + REBSER" where
  "TERM_SERIES s =
     (case SER_DATA_RAW s of
        (buf, off) \<Rightarrow>
          if IS_SER_ARRAY s then
            (if \<not> IS_SER_DYNAMIC s \<and> SER_LEN s = 1 then Inr s
             else case write_at buf (off + SER_LEN s * SER_WIDE s + 1) [0] of
               None \<Rightarrow> Inl Out_Of_Bounds
             | Some buf' \<Rightarrow> Inr (set_data_block s buf'))
          else
            (case write_at buf (off + SER_LEN s * SER_WIDE s) (replicate (SER_WIDE s) 0) of
               None \<Rightarrow> Inl Out_Of_Bounds
             | Some buf' \<Rightarrow> Inr (set_data_block s buf')))"


text \<open>
  Modelled from the spec: \<^verbatim>\<open>Did_Series_Data_Alloc\<close> and \<^verbatim>\<open>Prep_Array\<close> are not in
  the sources.  The allocation takes a best-fitting pool unit or a
  power-of-two rounded block and can fail; on success the series is dynamic
  with length 0, bias 0 and the capacity of the block, whose cells
  \<^verbatim>\<open>Prep_Array\<close> has formatted.  The allocator is the parameter \<open>Try_Alloc\<close>:
  given the bytes asked for (a count, the product of the units and the
  width), it fails (\<open>None\<close>) or tells how many bytes more the block holds,
  what its bytes are when the copying starts, and whether the power-of-2
  flag stays set.
\<close>

record fresh_block =
  fb_slack :: nat
  fb_bytes :: "nat \<Rightarrow> 8 word"
  fb_power_of_2 :: bool

definition Did_Series_Data_Alloc ::
  "(nat \<Rightarrow> fresh_block option) \<Rightarrow> REBSER \<Rightarrow> nat \<Rightarrow> REBSER option" where
  "Did_Series_Data_Alloc Try_Alloc s len =
     (let size = REBCNT (len * SER_WIDE s)
      in case Try_Alloc size of
        None \<Rightarrow> None
      | Some fb \<Rightarrow>
          Some (s\<lparr>flag_power_of_2 := fb_power_of_2 fb,
                  content := Dynamic
                    \<lparr>dyn_alloc = map (fb_bytes fb) [0 ..< size + fb_slack fb],
                     dyn_data = 0,
                     dyn_len = 0,
                     dyn_rest = REBCNT ((size + fb_slack fb) div SER_WIDE s),
                     dyn_bias = 0\<rparr>\<rparr>))"

text \<open>
  The search of \<^verbatim>\<open>Prior_Expand\<close> for the series (a list of node addresses, 0
  for an empty entry): whether it was found, \<^verbatim>\<open>n_found\<close>, and \<^verbatim>\<open>n_available\<close>.
\<close>

fun Prior_Expand_scan :: "nat list \<Rightarrow> nat \<Rightarrow> nat \<Rightarrow> nat \<Rightarrow> bool \<times> nat \<times> nat" where
  "Prior_Expand_scan [] sp n_found n_available = (False, n_found, n_available)"
| "Prior_Expand_scan (p # ps) sp n_found n_available =
     (if p = sp then (True, n_found, n_available)
      else Prior_Expand_scan ps sp (Suc n_found) (if p = 0 then n_found else n_available))"

text \<open>
  \<^verbatim>\<open>Expand_Series\<close>, path by path.  Assertions are kept as checks: an input
  that violates one is outside the function's contract and gives
  \<open>Assert_Failed\<close>.  The blocks under \<^verbatim>\<open>#if !defined(NDEBUG)\<close> that re-prepare
  the new slots or print are left out; they write nothing outside the new
  slots.

  Head insertion: the bias covers the expansion, so the data pointer moves
  back by \<^verbatim>\<open>wide * delta\<close> bytes.
\<close>

definition Expand_Series_head :: "REBSER \<Rightarrow> nat \<Rightarrow> error + REBSER" where
  "Expand_Series_head s delta =
     (case content s of
        Fixed n bytes \<Rightarrow> Inl Assert_Failed
      | Dynamic d \<Rightarrow>
          if dyn_data d < REBCNT (SER_WIDE s * delta) then Inl Out_Of_Bounds
          else SER_SUB_BIAS
                 (s\<lparr>content := Dynamic (d\<lparr>dyn_data := dyn_data d - REBCNT (SER_WIDE s * delta),
                                         dyn_len := REBCNT (dyn_len d + delta),
                                         dyn_rest := REBCNT (dyn_rest d + delta)\<rparr>)\<rparr>)
                 delta)"

text \<open>No expansion needed: slide the data after the index down, set the length, terminate.\<close>

definition Expand_Series_in_place :: "REBSER \<Rightarrow> nat \<Rightarrow> nat \<Rightarrow> error + REBSER" where
  "Expand_Series_in_place s index delta =
     (let len_old = SER_LEN s;
          wide = SER_WIDE s;
          was_dynamic = IS_SER_DYNAMIC s;
          start = REBCNT (index * wide);
          extra = REBCNT (delta * wide);
          size = REBCNT (SER_LEN s * wide)
      in case SER_DATA_RAW s of
        (buf, off) \<Rightarrow>
          (case memmove buf (off + start + extra) (off + start) (minus_REBCNT size start) of
             None \<Rightarrow> Inl Out_Of_Bounds
           | Some buf' \<Rightarrow>
               (case SET_SERIES_LEN (set_data_block s buf') (REBCNT (len_old + delta)) of
                  Inl err \<Rightarrow> Inl err
                | Inr s2 \<Rightarrow>
                    if was_dynamic
                       \<and> \<not> (case SER_TOTAL s2 of
                               Inl err \<Rightarrow> False
                             | Inr tot \<Rightarrow>
                                 (case SER_BIAS s2 of
                                    Inl err \<Rightarrow> False
                                  | Inr bias \<Rightarrow> tot > REBCNT (REBCNT (SER_LEN s2 + bias) * wide)))
                    then Inl Assert_Failed
                    else TERM_SERIES s2)))"

text \<open>
  Insufficient capacity: a new allocation, always dynamic, of
  \<^verbatim>\<open>len_old + delta + x\<close> units, where \<^verbatim>\<open>x\<close> is 1, or \<^verbatim>\<open>SER_LEN(s) + delta + 1\<close>
  when the series is in \<^verbatim>\<open>Prior_Expand\<close>; the old data is copied around the
  expansion point and the old block is freed.
\<close>

definition Expand_Series_realloc ::
  "(nat \<Rightarrow> fresh_block option) \<Rightarrow> nat list \<Rightarrow> nat \<Rightarrow> REBSER \<Rightarrow> nat \<Rightarrow> nat
     \<Rightarrow> error + REBSER \<times> nat list" where
  "Expand_Series_realloc Try_Alloc Prior_Expand sp s index delta =
     (let len_old = SER_LEN s;
          wide = SER_WIDE s;
          start = REBCNT (index * wide);
          extra = REBCNT (delta * wide);
          size = REBCNT (SER_LEN s * wide)
      in if flag_fixed_size s then Inl Error_Locked_Series_Raw
         else case Prior_Expand_scan Prior_Expand sp 0 0 of
           (found, n_found, n_available) \<Rightarrow>
             (let x = (if found then REBCNT (SER_LEN s + delta + 1) else 1)
              in case SER_DATA_RAW s of
                (data_old_buf, data_old) \<Rightarrow>
                  (case Did_Series_Data_Alloc Try_Alloc (s\<lparr>flag_power_of_2 := True\<rparr>)
                          (REBCNT (len_old + delta + x)) of
                     None \<Rightarrow> Inl (Error_No_Memory (REBCNT (REBCNT (len_old + delta + x) * wide)))
                   | Some s1 \<Rightarrow>
                       (let Prior_Expand' =
                              (if \<not> found then Prior_Expand[n_available := sp] else Prior_Expand)
                        in case SER_DATA_RAW s1 of
                          (new_buf, new_data) \<Rightarrow>
                            (case memcpy new_buf new_data data_old_buf data_old start of
                               None \<Rightarrow> Inl Out_Of_Bounds
                             | Some buf1 \<Rightarrow>
                                 (case memcpy buf1 (new_data + start + extra) data_old_buf
                                         (data_old + start) (minus_REBCNT size start) of
                                    None \<Rightarrow> Inl Out_Of_Bounds
                                  | Some buf2 \<Rightarrow>
                                      (case SET_SERIES_LEN (set_data_block s1 buf2)
                                              (REBCNT (len_old + delta)) of
                                         Inl err \<Rightarrow> Inl err
                                       | Inr s2 \<Rightarrow>
                                           (case TERM_SERIES s2 of
                                              Inl err \<Rightarrow> Inl err
                                            | Inr s3 \<Rightarrow> Inr (s3, Prior_Expand')))))))))"

text \<open>
  The test for the head insertion:
  \<^verbatim>\<open>was_dynamic and index == 0 and SER_BIAS(s) >= delta\<close>.
\<close>

definition head_bias_covers :: "REBSER \<Rightarrow> nat \<Rightarrow> nat \<Rightarrow> bool" where
  "head_bias_covers s index delta =
     (IS_SER_DYNAMIC s \<and> index = 0
      \<and> (case SER_BIAS s of Inl err \<Rightarrow> False | Inr bias \<Rightarrow> bias \<ge> delta))"

text \<open>
  \<^verbatim>\<open>Expand_Series(s, index, delta)\<close>.  \<open>sp\<close> is the address of the node \<^verbatim>\<open>s\<close>;
  the result is the series and \<^verbatim>\<open>Prior_Expand\<close> afterwards.  The capacity test
  is \<^verbatim>\<open>(size + extra + wide) <= SER_REST(s) * SER_WIDE(s)\<close> on the counts
  \<^verbatim>\<open>size\<close> and \<^verbatim>\<open>extra\<close>.
\<close>

definition Expand_Series ::
  "(nat \<Rightarrow> fresh_block option) \<Rightarrow> nat list \<Rightarrow> nat \<Rightarrow> REBSER \<Rightarrow> nat \<Rightarrow> nat
     \<Rightarrow> error + REBSER \<times> nat list" where
  "Expand_Series Try_Alloc Prior_Expand sp s index delta =
     (if \<not> index \<le> SER_LEN s then Inl Assert_Failed
      else if (delta div 2 ^ 31) mod 2 = 1 then Inl Error_Past_End_Raw
      else if delta = 0 then Inr (s, Prior_Expand)
      else if head_bias_covers s index delta
      then (case Expand_Series_head s delta of
              Inl err \<Rightarrow> Inl err
            | Inr s' \<Rightarrow> Inr (s', Prior_Expand))
      else case SER_REST s of
        Inl err \<Rightarrow> Inl err
      | Inr rest \<Rightarrow>
          if REBCNT (REBCNT (SER_LEN s * SER_WIDE s) + REBCNT (delta * SER_WIDE s) + SER_WIDE s)
               \<le> REBCNT (rest * SER_WIDE s)
          then (case Expand_Series_in_place s index delta of
                  Inl err \<Rightarrow> Inl err
                | Inr s' \<Rightarrow> Inr (s', Prior_Expand))
          else Expand_Series_realloc Try_Alloc Prior_Expand sp s index delta)"

text \<open>
  The invariant of a series that \<^verbatim>\<open>Expand_Series\<close> relies on ("the incoming
  series was already terminated"): a dynamic series has its data pointer
  \<^verbatim>\<open>bias\<close> units into its block, the block holds \<^verbatim>\<open>rest + bias\<close> units, and
  there is room for a terminator after the length; an embedded series is an
  array of at most one cell, or elements and a terminator that fit in the
  content, whose size is a multiple of the width.  The fields are counts,
  and the size of the block is one.
\<close>

definition series_ok :: "REBSER \<Rightarrow> bool" where
  "series_ok s =
     (0 < SER_WIDE s
      \<and> (case content s of
           Dynamic d \<Rightarrow>
             dyn_bias d < 2 ^ 32
             \<and> dyn_data d = ((dyn_bias d div 2 ^ 16) mod 2 ^ 16) * SER_WIDE s
             \<and> length (dyn_alloc d) = (dyn_rest d + (dyn_bias d div 2 ^ 16) mod 2 ^ 16) * SER_WIDE s
             \<and> dyn_len d < dyn_rest d
             \<and> length (dyn_alloc d) < 2 ^ 32
         | Fixed n bytes \<Rightarrow>
             length bytes = sizeof_content
             \<and> (if IS_SER_ARRAY s then n \<le> 1
                 else sizeof_content mod SER_WIDE s = 0 \<and> (n + 1) * SER_WIDE s \<le> sizeof_content)))"

text \<open>Concrete series and allocator for evaluation.\<close>

definition sample_Try_Alloc :: "nat \<Rightarrow> fresh_block option" where
  "sample_Try_Alloc n = Some \<lparr>fb_slack = 2, fb_bytes = (\<lambda>k. 0xAA), fb_power_of_2 = False\<rparr>"



definition sample_fixed_full :: REBSER where
  "sample_fixed_full =
     \<lparr>wide_byte = 1, flag_fixed_size = True, flag_power_of_2 = False,
      content = Dynamic \<lparr>dyn_alloc = [1, 2, 0], dyn_data = 0, dyn_len = 2, dyn_rest = 3,
                         dyn_bias = 0\<rparr>\<rparr>"

definition sample_fixed_size :: REBSER where
  "sample_fixed_size =
     \<lparr>wide_byte = 1, flag_fixed_size = True, flag_power_of_2 = False,
      content = Dynamic \<lparr>dyn_alloc = [1, 2, 0, 0xAA, 0xAA, 0xAA], dyn_data = 0, dyn_len = 2,
                         dyn_rest = 6, dyn_bias = 0\<rparr>\<rparr>"

section \<open>Proofs\<close>

subsection \<open>Truth testing\<close>

text \<open>
  C5.  Testing the truthiness of a void value fails with the Void-Conditional
  error, whatever cell the void was written into; testing the logic-false
  value, a blank, or a nulled cell gives false and no error.
\<close>

theorem truthy_void_fails_falsey_values_false:
  "IS_TRUTHY (Init_Void c) = Inl Error_Void_Conditional_Raw
   \<and> IS_TRUTHY (Init_Logic c False) = Inr False
   \<and> IS_TRUTHY (Init_Blank c) = Inr False
   \<and> IS_TRUTHY (Init_Nulled c) = Inr False"
  by (simp add: IS_TRUTHY_def IS_VOID_def VAL_TYPE_def Init_Void_def Init_Logic_def
      Init_Blank_def Init_Nulled_def RESET_CELL_def RESET_CELL_EXTRA_def
      RESET_VAL_HEADER_EXTRA_def)


subsection \<open>MONEY!\<close>

lemma Init_Money_reset: "RESET_VAL_HEADER (Init_Money out c) REB_MONEY = Init_Money out c"
  by (simp add: RESET_VAL_HEADER_def Init_Money_def RESET_CELL_def RESET_CELL_EXTRA_def
      RESET_VAL_HEADER_EXTRA_def)

lemma VAL_TYPE_Init_Money: "VAL_TYPE (Init_Money out c) = REB_MONEY"
  by (simp add: VAL_TYPE_def Init_Money_def RESET_CELL_def RESET_CELL_EXTRA_def
      RESET_VAL_HEADER_EXTRA_def)

lemma VAL_MONEY_AMOUNT_Init_Money: "VAL_MONEY_AMOUNT (Init_Money out c) = Inr c"
  by (simp add: VAL_MONEY_AMOUNT_def Init_Money_def)

lemma VAL_TYPE_Init_Logic: "VAL_TYPE (Init_Logic c b) = REB_LOGIC"
  by (simp add: VAL_TYPE_def Init_Logic_def RESET_CELL_EXTRA_def RESET_VAL_HEADER_EXTRA_def)

lemma VAL_LOGIC_Init_Logic: "VAL_LOGIC (Init_Logic c b) = Inr b"
  by (simp add: VAL_LOGIC_def VAL_TYPE_def Init_Logic_def RESET_CELL_EXTRA_def
      RESET_VAL_HEADER_EXTRA_def)

lemma ten_div_ten:
  "deci_divide sample_deci_funcs (deci_of_int 10) (deci_of_int 10) = Inr (deci_of_int 1)"
  by (simp add: sample_deci_funcs_def whole_op_def whole_divide_def deci_to_whole_def
      deci_of_int_def deci_mantissa_def)

text \<open>
  C10.  MAKE MONEY! and TO MONEY! of a LOGIC! value always succeed: true gives
  the money cell whose amount is \<^verbatim>\<open>int_to_deci(1)\<close>, false the one whose amount
  is \<^verbatim>\<open>int_to_deci(0)\<close>, for every instance of the deci routines and whatever
  cells the logic value and the output were written into.
\<close>

theorem make_money_of_logic:
  "MAKE_Money ops out REB_MONEY (Init_Logic c True) = Inr (Init_Money out (int_to_deci ops 1))
   \<and> MAKE_Money ops out REB_MONEY (Init_Logic c False) = Inr (Init_Money out (int_to_deci ops 0))
   \<and> TO_Money ops out REB_MONEY (Init_Logic c True) = Inr (Init_Money out (int_to_deci ops 1))
   \<and> TO_Money ops out REB_MONEY (Init_Logic c False) = Inr (Init_Money out (int_to_deci ops 0))
   \<and> VAL_TYPE (Init_Money out (int_to_deci ops 1)) = REB_MONEY
   \<and> VAL_TYPE (Init_Money out (int_to_deci ops 0)) = REB_MONEY
   \<and> VAL_MONEY_AMOUNT (Init_Money out (int_to_deci ops 1)) = Inr (int_to_deci ops 1)
   \<and> VAL_MONEY_AMOUNT (Init_Money out (int_to_deci ops 0)) = Inr (int_to_deci ops 0)"
  by (simp add: TO_Money_def MAKE_Money_def VAL_TYPE_Init_Logic VAL_LOGIC_Init_Logic
      VAL_TYPE_Init_Money VAL_MONEY_AMOUNT_Init_Money)

theorem make_money_of_logic_witness:
  "MAKE_Money sample_deci_funcs DECLARE_LOCAL REB_MONEY (Init_Logic BLANK_VALUE True)
     = Inr (Init_Money DECLARE_LOCAL (deci_of_int 1))
   \<and> TO_Money sample_deci_funcs DECLARE_LOCAL REB_MONEY (Init_Logic BLANK_VALUE False)
     = Inr (Init_Money DECLARE_LOCAL (deci_of_int 0))"
  using make_money_of_logic [of sample_deci_funcs DECLARE_LOCAL BLANK_VALUE]
  by (simp add: sample_deci_funcs_def)

text \<open>
  C3, as amended.  Dividing one MONEY! value by another gives a MONEY! value:
  the dispatcher writes the deci quotient with \<^verbatim>\<open>Init_Money\<close> and resets the
  header to \<^verbatim>\<open>REB_MONEY\<close>, so the result is money-typed with the quotient as
  its amount, and an error of the deci division is the error of the call.
\<close>

theorem money_divide_is_money:
  "(deci_divide ops a b = Inr c \<longrightarrow>
      T_Money ops SYM_DIVIDE r out (Init_Money v a) (Init_Money w b) = Inr (Init_Money out c)
      \<and> VAL_TYPE (Init_Money out c) = REB_MONEY
      \<and> VAL_MONEY_AMOUNT (Init_Money out c) = Inr c)
   \<and> (deci_divide ops a b = Inl err \<longrightarrow>
      T_Money ops SYM_DIVIDE r out (Init_Money v a) (Init_Money w b) = Inl err)"
  by (simp add: T_Money_def money_binary_op_def Math_Arg_For_Money_def
      VAL_TYPE_Init_Money VAL_MONEY_AMOUNT_Init_Money Init_Money_reset)

theorem money_divide_is_money_witness:
  "deci_divide sample_deci_funcs (deci_of_int 10) (deci_of_int 10) = Inr (deci_of_int 1)
   \<and> T_Money sample_deci_funcs SYM_DIVIDE no_round_params DECLARE_LOCAL
        (Init_Money DECLARE_LOCAL (deci_of_int 10)) (Init_Money DECLARE_LOCAL (deci_of_int 10))
      = Inr (Init_Money DECLARE_LOCAL (deci_of_int 1))
   \<and> VAL_TYPE (Init_Money DECLARE_LOCAL (deci_of_int 1)) = REB_MONEY"
  using money_divide_is_money [of sample_deci_funcs "deci_of_int 10" "deci_of_int 10"
      "deci_of_int 1" no_round_params DECLARE_LOCAL DECLARE_LOCAL DECLARE_LOCAL]
    ten_div_ten
  by simp

text \<open>
  C3 as stated fails: \<^verbatim>\<open>$10 / $10\<close> is the money value \<^verbatim>\<open>$1\<close>, whose kind is
  \<^verbatim>\<open>REB_MONEY\<close> and neither \<^verbatim>\<open>REB_INTEGER\<close> nor \<^verbatim>\<open>REB_DECIMAL\<close>.
\<close>

theorem money_divide_counterexample:
  "T_Money sample_deci_funcs SYM_DIVIDE no_round_params DECLARE_LOCAL ten_dollars ten_dollars
     = Inr (Init_Money DECLARE_LOCAL (int_to_deci sample_deci_funcs 1))
   \<and> VAL_TYPE (Init_Money DECLARE_LOCAL (int_to_deci sample_deci_funcs 1)) = REB_MONEY
   \<and> VAL_TYPE (Init_Money DECLARE_LOCAL (int_to_deci sample_deci_funcs 1)) \<noteq> REB_INTEGER
   \<and> VAL_TYPE (Init_Money DECLARE_LOCAL (int_to_deci sample_deci_funcs 1)) \<noteq> REB_DECIMAL"
  by (simp add: T_Money_def money_binary_op_def Math_Arg_For_Money_def ten_dollars_def
      VAL_TYPE_Init_Money VAL_MONEY_AMOUNT_Init_Money Init_Money_reset ten_div_ten)
     (simp add: sample_deci_funcs_def)

subsection \<open>TYPESET!\<close>

lemma VAL_TYPE_Init_Typeset: "VAL_TYPE (Init_Typeset v a n) = REB_TYPESET"
  by (simp add: VAL_TYPE_def Init_Typeset_def RESET_CELL_def RESET_CELL_EXTRA_def
      RESET_VAL_HEADER_EXTRA_def)

lemma VAL_TYPE_Init_Datatype: "VAL_TYPE (Init_Datatype v k) = REB_DATATYPE"
  by (simp add: VAL_TYPE_def Init_Datatype_def RESET_CELL_def RESET_CELL_EXTRA_def
      RESET_VAL_HEADER_EXTRA_def)

lemma VAL_TYPESET_BITS_Init_Typeset: "VAL_TYPESET_BITS (Init_Typeset v a n) = Inr a"
  by (simp add: VAL_TYPESET_BITS_def Init_Typeset_def)

lemma VAL_TYPE_KIND_Init_Datatype: "VAL_TYPE_KIND (Init_Datatype v k) = Inr k"
  by (simp add: VAL_TYPE_KIND_def Init_Datatype_def)

lemma Move_Value_typeset:
  "Move_Value out ((Init_Typeset v a n)\<lparr>payload := P_Typeset b\<rparr>) = Init_Typeset out b n"
  by (simp add: Move_Value_def Init_Typeset_def RESET_CELL_def RESET_CELL_EXTRA_def
      RESET_VAL_HEADER_EXTRA_def)

lemmas typeset_simps = VAL_TYPE_Init_Typeset VAL_TYPE_Init_Datatype VAL_TYPESET_BITS_Init_Typeset
  VAL_TYPE_KIND_Init_Datatype Move_Value_typeset

text \<open>
  The set operations on two typesets, COMPLEMENT and FIND: bitwise or, and,
  exclusive or and not of the masks, and the test of the datatype's bit.
\<close>

lemma typeset_ops_on_typesets:
  "T_Typeset num SYM_UNION out (Init_Typeset v a n) (Some (Init_Typeset w b m))
     = Inr (Some (Init_Typeset out (a OR b) n))
   \<and> T_Typeset num SYM_INTERSECT out (Init_Typeset v a n) (Some (Init_Typeset w b m))
     = Inr (Some (Init_Typeset out (a AND b) n))
   \<and> T_Typeset num SYM_DIFFERENCE out (Init_Typeset v a n) (Some (Init_Typeset w b m))
     = Inr (Some (Init_Typeset out (a XOR b) n))
   \<and> T_Typeset num SYM_COMPLEMENT out (Init_Typeset v a n) None
     = Inr (Some (Init_Typeset out (NOT a) n))
   \<and> T_Typeset num SYM_FIND out (Init_Typeset v a n) (Some (Init_Datatype w k))
     = (if a AND FLAGIT_KIND num k \<noteq> 0 then Inr (Some (Init_Bar out)) else Inr None)"
  by (simp add: T_Typeset_def typeset_simps TYPE_CHECK_def)

text \<open>
  C2, at the failing input.  With a bare DATATYPE! as second argument the set
  operations use the flag of \<^verbatim>\<open>REB_DATATYPE\<close>, the kind of the argument cell
  itself, whatever type \<open>k\<close> the datatype stands for.  The union of the
  typeset of INTEGER! with the datatype DECIMAL! is the typeset of INTEGER!
  and DATATYPE! (mask \<open>0x110000\<close> in the sample numbering), not the typeset
  of INTEGER! and DECIMAL! (mask \<open>0x30000\<close>).
\<close>

theorem typeset_union_promotes_datatype_to_own_kind:
  "T_Typeset num SYM_UNION out (Init_Typeset v a n) (Some (Init_Datatype w k))
     = Inr (Some (Init_Typeset out (a OR FLAGIT_KIND num REB_DATATYPE) n))
   \<and> T_Typeset num SYM_INTERSECT out (Init_Typeset v a n) (Some (Init_Datatype w k))
     = Inr (Some (Init_Typeset out (a AND FLAGIT_KIND num REB_DATATYPE) n))
   \<and> T_Typeset num SYM_DIFFERENCE out (Init_Typeset v a n) (Some (Init_Datatype w k))
     = Inr (Some (Init_Typeset out (a XOR FLAGIT_KIND num REB_DATATYPE) n))
   \<and> T_Typeset sample_num SYM_UNION DECLARE_LOCAL
        (Init_Typeset DECLARE_LOCAL (FLAGIT_KIND sample_num REB_INTEGER) None)
        (Some (Init_Datatype DECLARE_LOCAL REB_DECIMAL))
     = Inr (Some (Init_Typeset DECLARE_LOCAL 0x110000 None))
   \<and> FLAGIT_KIND sample_num REB_INTEGER OR FLAGIT_KIND sample_num REB_DECIMAL = 0x30000"
  by (simp add: T_Typeset_def typeset_simps FLAGIT_KIND_def)

subsection \<open>PORT!\<close>

text \<open>
  C8, as amended.  APPEND on a port first rejects a value that is not a
  BINARY!, TEXT! or BLOCK! with the invalid-argument error, whatever the
  refinements; for an accepted value it fails with the bad-refines error when
  any of \<^verbatim>\<open>/part\<close>, \<^verbatim>\<open>/only\<close>, \<^verbatim>\<open>/dup\<close>, \<^verbatim>\<open>/line\<close> was used; otherwise it
  is whatever \<^verbatim>\<open>write/append\<close> of the port and the value evaluates to.
\<close>

theorem append_on_port:
  "VAL_TYPE (arg_series f) = REB_PORT \<Longrightarrow>
     (VAL_TYPE (arg_value f) \<notin> {REB_BINARY, REB_TEXT, REB_BLOCK} \<longrightarrow>
        Retrigger_Append_As_Write rebRun f = Inl (Error_Invalid (arg_value f)))
     \<and> (VAL_TYPE (arg_value f) \<in> {REB_BINARY, REB_TEXT, REB_BLOCK}
          \<and> (ref_part f \<or> ref_only f \<or> ref_dup f \<or> ref_line f) \<longrightarrow>
        Retrigger_Append_As_Write rebRun f = Inl Error_Bad_Refines_Raw)
     \<and> (VAL_TYPE (arg_value f) \<in> {REB_BINARY, REB_TEXT, REB_BLOCK}
          \<and> \<not> (ref_part f \<or> ref_only f \<or> ref_dup f \<or> ref_line f) \<longrightarrow>
        Retrigger_Append_As_Write rebRun f = rebRun ''write/append'' [arg_series f, arg_value f])"
  by (auto simp add: Retrigger_Append_As_Write_def)

theorem append_on_port_witness:
  "VAL_TYPE (arg_series append_only_text) = REB_PORT
   \<and> VAL_TYPE (arg_value append_only_text) = REB_TEXT
   \<and> ref_only append_only_text
   \<and> Retrigger_Append_As_Write sample_rebRun append_only_text = Inl Error_Bad_Refines_Raw"
proof -
  have port: "VAL_TYPE (arg_series append_only_text) = REB_PORT"
    by (simp add: append_only_text_def port_cell_def VAL_TYPE_def RESET_CELL_def
        RESET_CELL_EXTRA_def RESET_VAL_HEADER_EXTRA_def)
  have is_text: "VAL_TYPE (arg_value append_only_text) = REB_TEXT"
    by (simp add: append_only_text_def text_cell_def VAL_TYPE_def RESET_CELL_def
        RESET_CELL_EXTRA_def RESET_VAL_HEADER_EXTRA_def)
  have only: "ref_only append_only_text"
    by (simp add: append_only_text_def)
  from append_on_port [OF port, of sample_rebRun] is_text only
  have "Retrigger_Append_As_Write sample_rebRun append_only_text = Inl Error_Bad_Refines_Raw"
    by simp
  with port is_text only show ?thesis by simp
qed

text \<open>
  C8 as stated fails: APPEND/ONLY of the integer 1 to a port uses a refinement
  and fails with the invalid-argument error, not with the bad-refines error.
\<close>

theorem append_on_port_counterexample:
  "VAL_TYPE (arg_series append_only_integer) = REB_PORT
   \<and> ref_only append_only_integer
   \<and> Retrigger_Append_As_Write sample_rebRun append_only_integer
       = Inl (Error_Invalid (Init_Integer DECLARE_LOCAL 1))
   \<and> Retrigger_Append_As_Write sample_rebRun append_only_integer \<noteq> Inl Error_Bad_Refines_Raw"
  by (simp add: Retrigger_Append_As_Write_def append_only_integer_def port_cell_def VAL_TYPE_def
      Init_Integer_def RESET_CELL_def RESET_CELL_EXTRA_def RESET_VAL_HEADER_EXTRA_def)

subsection \<open>Contexts\<close>

lemma rest_all_hidden_visible: "rest_all_hidden fs = (visible_fields fs = [])"
  by (induction fs rule: rest_all_hidden.induct) (auto simp: visible_fields_def)

lemma Equal_Context_loop_visible:
  "Equal_Context_loop cmp fs1 fs2 = visible_fields_match cmp fs1 fs2"
proof (induction cmp fs1 fs2 rule: Equal_Context_loop.induct)
  case (1 cmp fs2)
  then show ?case
    by (simp add: rest_all_hidden_visible visible_fields_match_def) (simp add: visible_fields_def)
next
  case (2 cmp v va)
  then show ?case
    by (simp add: rest_all_hidden_visible visible_fields_match_def del: rest_all_hidden.simps)
      (simp add: visible_fields_def)
next
  case (3 cmp key1 var1 rest1 key2 var2 rest2)
  then show ?case
    by (auto simp add: rest_all_hidden_visible visible_fields_match_def visible_fields_def fields_match_def
         simp del: rest_all_hidden.simps)
qed

lemma visible_insert_hidden:
  "key_hidden (fst h) \<Longrightarrow> visible_fields (xs @ h # ys) = visible_fields (xs @ ys)"
  by (cases h) (simp add: visible_fields_def)

lemma match_same_canons:
  "list_all2 (fields_match cmp) xs ys \<Longrightarrow> map (key_canon \<circ> fst) xs = map (key_canon \<circ> fst) ys"
  by (induction rule: list_all2_induct) (auto simp: fields_match_def)

lemma reorder_changes_canons:
  assumes d: "distinct (map (key_canon \<circ> fst) fs)"
    and p: "mset fs' = mset fs"
    and ne: "visible_fields fs' \<noteq> visible_fields fs"
  shows "map (key_canon \<circ> fst) (visible_fields fs') \<noteq> map (key_canon \<circ> fst) (visible_fields fs)"
proof
  assume eq: "map (key_canon \<circ> fst) (visible_fields fs') = map (key_canon \<circ> fst) (visible_fields fs)"
  have inj: "inj_on (key_canon \<circ> fst) (set fs)"
    using d by (simp add: distinct_map)
  have s: "set fs' = set fs" using p by (metis mset_eq_setD)
  have sub: "set (visible_fields fs') \<union> set (visible_fields fs) \<subseteq> set fs"
    using s by (auto simp: visible_fields_def)
  have "inj_on (key_canon \<circ> fst) (set (visible_fields fs') \<union> set (visible_fields fs))"
    using inj sub by (rule inj_on_subset)
  then have "visible_fields fs' = visible_fields fs"
    using eq by (simp add: inj_on_map_eq_map)
  with ne show False by simp
qed

lemma sample_fields_facts:
  "key_hidden (fst field_self)" "\<not> key_hidden (fst field_a)" "\<not> key_hidden (fst field_b)"
  "key_canon (fst field_a) = 1" "key_canon (fst field_b) = 2" "field_a \<noteq> field_b"
  by (simp_all add: field_self_def field_a_def field_b_def sample_key_def)

lemma sample_match: "fields_match sample_Cmp_Value field_a field_a" "fields_match sample_Cmp_Value field_b field_b"
  by (simp_all add: fields_match_def sample_Cmp_Value_def)

text \<open>
  C4.  For two context values of the same kind: the same context compares
  equal; two different contexts compare equal exactly when their visible
  (non-hidden) fields, taken in sequence, match pairwise in key typeset, key
  symbol and value.  So when they compare equal and the fields of one side
  are reordered so that its visible sequence changes (the keys of a context
  have distinct symbols), the comparison becomes false; and adding a hidden
  field anywhere on one side leaves the result as it was.
\<close>

theorem equal_context_compares_visible_fields:
  "VAL_TYPE val = VAL_TYPE arg \<and> payload val = P_Context f1 \<and> payload arg = P_Context f2 \<longrightarrow>
     (f1 = f2 \<longrightarrow> Equal_Context cmp heap val arg = Inr True)
     \<and> (f1 \<noteq> f2 \<longrightarrow>
          Equal_Context cmp heap val arg = Inr (visible_fields_match cmp (heap f1) (heap f2))
          \<and> (Equal_Context cmp heap val arg = Inr True
               \<and> distinct (map (key_canon \<circ> fst) (heap f2))
               \<and> mset fs' = mset (heap f2)
               \<and> visible_fields fs' \<noteq> visible_fields (heap f2) \<longrightarrow>
             Equal_Context cmp (heap(f2 := fs')) val arg = Inr False)
          \<and> (heap f2 = xs @ ys \<and> key_hidden (fst h) \<longrightarrow>
             Equal_Context cmp (heap(f2 := xs @ h # ys)) val arg = Equal_Context cmp heap val arg))"
proof (intro impI conjI; (elim conjE)?)
  assume "VAL_TYPE val = VAL_TYPE arg" "payload val = P_Context f1" "payload arg = P_Context f2" "f1 = f2"
  then show "Equal_Context cmp heap val arg = Inr True"
    by (simp add: Equal_Context_def VAL_CONTEXT_def)
next
  assume a: "VAL_TYPE val = VAL_TYPE arg" "payload val = P_Context f1" "payload arg = P_Context f2" "f1 \<noteq> f2"
  then show main: "Equal_Context cmp heap val arg = Inr (visible_fields_match cmp (heap f1) (heap f2))"
    by (simp add: Equal_Context_def VAL_CONTEXT_def Equal_Context_loop_visible)
next
  assume a: "VAL_TYPE val = VAL_TYPE arg" "payload val = P_Context f1" "payload arg = P_Context f2" "f1 \<noteq> f2"
    and eq: "Equal_Context cmp heap val arg = Inr True"
    and d: "distinct (map (key_canon \<circ> fst) (heap f2))"
    and p: "mset fs' = mset (heap f2)"
    and ne: "visible_fields fs' \<noteq> visible_fields (heap f2)"
  from a eq have m: "list_all2 (fields_match cmp) (visible_fields (heap f1)) (visible_fields (heap f2))"
    by (simp add: Equal_Context_def VAL_CONTEXT_def Equal_Context_loop_visible visible_fields_match_def)
  have "\<not> list_all2 (fields_match cmp) (visible_fields (heap f1)) (visible_fields fs')"
  proof
    assume "list_all2 (fields_match cmp) (visible_fields (heap f1)) (visible_fields fs')"
    then have "map (key_canon \<circ> fst) (visible_fields fs') = map (key_canon \<circ> fst) (visible_fields (heap f2))"
      using m match_same_canons by metis
    with reorder_changes_canons [OF d p ne] show False by simp
  qed
  with a show "Equal_Context cmp (heap(f2 := fs')) val arg = Inr False"
    by (simp add: Equal_Context_def VAL_CONTEXT_def Equal_Context_loop_visible visible_fields_match_def)
next
  assume a: "VAL_TYPE val = VAL_TYPE arg" "payload val = P_Context f1" "payload arg = P_Context f2" "f1 \<noteq> f2"
    and h: "heap f2 = xs @ ys" "key_hidden (fst h)"
  then show "Equal_Context cmp (heap(f2 := xs @ h # ys)) val arg = Equal_Context cmp heap val arg"
    by (simp add: Equal_Context_def VAL_CONTEXT_def Equal_Context_loop_visible visible_fields_match_def
        visible_insert_hidden)
qed

theorem equal_context_compares_visible_fields_witness:
  "Equal_Context sample_Cmp_Value sample_heap (sample_object 1) (sample_object 2) = Inr True
   \<and> Equal_Context sample_Cmp_Value (sample_heap(2 := [field_b, field_a])) (sample_object 1) (sample_object 2) = Inr False
   \<and> Equal_Context sample_Cmp_Value (sample_heap(2 := [field_a, field_self, field_b])) (sample_object 1) (sample_object 2) = Inr True"
proof -
  have v: "visible_fields [field_a, field_b] = [field_a, field_b]"
      "visible_fields [field_b, field_a] = [field_b, field_a]"
    using sample_fields_facts by (simp_all add: visible_fields_def case_prod_unfold)
  have pre: "VAL_TYPE (sample_object 1) = VAL_TYPE (sample_object 2)
      \<and> payload (sample_object 1) = P_Context 1 \<and> payload (sample_object 2) = P_Context 2"
    by (simp add: sample_object_def Init_Any_Context_def VAL_TYPE_def RESET_CELL_def RESET_CELL_EXTRA_def
        RESET_VAL_HEADER_EXTRA_def)
  have m: "visible_fields_match sample_Cmp_Value (sample_heap 1) (sample_heap 2)"
    using sample_match by (simp add: visible_fields_match_def sample_heap_def v)
  note t = equal_context_compares_visible_fields [of "sample_object 1" "sample_object 2" 1 2
      sample_Cmp_Value sample_heap "[field_b, field_a]" "[field_a]" "[field_b]" field_self]
  from t pre m have e: "Equal_Context sample_Cmp_Value sample_heap (sample_object 1) (sample_object 2) = Inr True"
    by simp
  have d: "distinct (map (key_canon \<circ> fst) (sample_heap 2))"
    using sample_fields_facts by (simp add: sample_heap_def)
  have p: "mset [field_b, field_a] = mset (sample_heap 2)"
    by (simp add: sample_heap_def)
  have ne: "visible_fields [field_b, field_a] \<noteq> visible_fields (sample_heap 2)"
    using sample_fields_facts by (simp add: sample_heap_def v)
  from t pre e d p ne
  have r: "Equal_Context sample_Cmp_Value (sample_heap(2 := [field_b, field_a])) (sample_object 1) (sample_object 2) = Inr False"
    by simp
  have "sample_heap 2 = [field_a] @ [field_b]" by (simp add: sample_heap_def)
  with t pre e sample_fields_facts(1)
  have h: "Equal_Context sample_Cmp_Value (sample_heap(2 := [field_a, field_self, field_b])) (sample_object 1) (sample_object 2) = Inr True"
    by simp
  from e r h show ?thesis by simp
qed

subsection \<open>The host console loop\<close>

text \<open>Every pass that goes on leaves Ctrl-C disabled for the next call of HOST-CONSOLE.\<close>

lemma host_next_ctrl_c_disabled:
  "host_loop_body console run st = Host_Next st' ex \<Longrightarrow> \<not> ctrl_c_enabled st'"
  by (auto simp: host_loop_body_def Let_def Enable_Ctrl_C_def Disable_Ctrl_C_def
      split: prod.splits trapped.splits if_splits sum.splits)





subsection \<open>SAVE\<close>

lemmas save_steps = save_encode_def step_checksum_def step_compress_def step_script_def
  step_to_binary_def step_length_def step_header_def save_molded_def

lemma sample_find_checksum: "sample_find [H_Set_Word ''checksum'', H_Logic True] ''checksum'' = Some 0"
  by simp

lemma save_not_codec:
  assumes nc: "sv_header fr \<or> \<not> is_file_or_url (sv_where fr) \<or> nat_file_type nv (sv_where fr) = None
         \<or> nat_file_type nv (sv_where fr) = Some ''rebol''"
    and f1: "fr1 = (if sv_length fr \<or> method_truthy (sv_method fr)
                  then fr\<lparr>sv_header := True,
                          sv_header_data :=
                            (case sv_header_data fr of None \<Rightarrow> Some (H_Block []) | Some h \<Rightarrow> Some h)\<rparr>
                  else fr)"
    and f2: "(if header_truthy (sv_header_data fr1) then nat_handle_header nv fr1 else Inr fr1) = Inr fr2"
  shows "save nv fr =
          (case save_encode nv fr2 of
             Inl err \<Rightarrow> Inl err
           | Inr (bytes, hdr_out) \<Rightarrow>
               Inr (case sv_where fr2 of
                      W_File f \<Rightarrow> Written (sv_where fr2) bytes
                    | W_Url u \<Rightarrow> Written (sv_where fr2) bytes
                    | W_Blank \<Rightarrow> Returned bytes
                    | _ \<Rightarrow> Inserted_At_Tail (sv_where fr2) bytes))"
proof -
  have c: "(if \<not> sv_header fr \<and> is_file_or_url (sv_where fr)
            then (case nat_file_type nv (sv_where fr) of
                    None \<Rightarrow> None
                  | Some type \<Rightarrow> if type \<noteq> ''rebol'' then Some type else None)
            else None) = None"
    using nc by (auto split: option.splits)
  show ?thesis
    unfolding save_def c option.case Let_def f1 [symmetric] f2 sum.case
    by (simp split: sum.splits prod.splits save_where.splits)
qed

text \<open>
  C9.  Wherever SAVE molds, that is everywhere but the codec shortcut for a
  file or URL of another type (which writes the encoded value and molds
  nothing), the data is the molded value with exactly one newline appended,
  and every later step works on that, whatever the header and the
  refinements are.  With \<open>molded\<close> the mold and its newline and \<open>body\<close> its
  UTF-8 bytes: without a header, and with a header block that has no
  \<^verbatim>\<open>checksum\<close> word, GZIP and the base-64 molding receive \<open>molded\<close>, and what
  is stored uncompressed is \<open>body\<close>; with a header block that has the word
  \<^verbatim>\<open>checksum\<close>, the value stored after it is the secure checksum of \<open>body\<close>,
  taken before any compression or base-64 step, which then work on \<open>body\<close>.
  The length entry of /length is the length of the encoded data; a header
  that is not a block, or /length without a length entry, is an error.
  The bytes SAVE writes, returns or inserts are those of this encoding for
  the frame as the header handling left it.
\<close>

theorem save_newline_then_checksum_then_encoding:
  "molded = nat_mold nv (sv_all fr) (sv_value fr) @ [newline]
   \<and> body = nat_to_binary nv molded
   \<and> enc = (\<lambda>d. if sv_method fr = M_Word ''script''
                  then nat_to_binary nv
                         (nat_mold64 nv (if sv_compress fr then D_Binary (nat_gzip nv d) else d))
                  else if sv_compress fr then nat_gzip nv d
                  else body)
   \<and> hdr = (\<lambda>items. nat_to_binary nv (''REBOL'' @ '' '' @ nat_mold_header nv items @ [newline]))
   \<and> with_length =
       (\<lambda>items p. if sv_length fr
                   then (case nat_find nv items ''length'' of
                           None \<Rightarrow> None
                         | Some pos \<Rightarrow> Some (change_at items (pos + 1) (H_Integer (int (length p)))))
                   else Some items) \<longrightarrow>
     (sv_header_data fr = None \<longrightarrow>
        save_encode nv fr =
          (if sv_length fr then Inl Error_In_Native else Inr (enc (D_Text molded), None)))
     \<and> (sv_header_data fr = Some (H_Block items) \<and> nat_find nv items ''checksum'' = None \<longrightarrow>
        save_encode nv fr =
          (case with_length items (enc (D_Text molded)) of
             None \<Rightarrow> Inl Error_In_Native
           | Some items' \<Rightarrow> Inr (hdr items' @ enc (D_Text molded), Some (H_Block items'))))
     \<and> (sv_header_data fr = Some (H_Block items) \<and> nat_find nv items ''checksum'' = Some tmp
        \<and> items1 = change_at items (tmp + 1) (H_Binary (nat_checksum_secure nv body)) \<longrightarrow>
        save_encode nv fr =
          (case with_length items1 (enc (D_Binary body)) of
             None \<Rightarrow> Inl Error_In_Native
           | Some items' \<Rightarrow> Inr (hdr items' @ enc (D_Binary body), Some (H_Block items'))))
     \<and> (sv_header_data fr = Some h \<and> (\<forall>items. h \<noteq> H_Block items) \<longrightarrow>
        save_encode nv fr = Inl Error_In_Native)
     \<and> (\<not> sv_header fr \<and> is_file_or_url (sv_where fr)
        \<and> nat_file_type nv (sv_where fr) = Some ftype \<and> ftype \<noteq> ''rebol'' \<longrightarrow>
        save nv fr = Inr (Codec_Written (sv_where fr) ftype (sv_value fr)))
     \<and> ((sv_header fr \<or> \<not> is_file_or_url (sv_where fr) \<or> nat_file_type nv (sv_where fr) = None
         \<or> nat_file_type nv (sv_where fr) = Some ''rebol'')
        \<and> fr1 = (if sv_length fr \<or> method_truthy (sv_method fr)
                  then fr\<lparr>sv_header := True,
                          sv_header_data :=
                            (case sv_header_data fr of None \<Rightarrow> Some (H_Block []) | Some h \<Rightarrow> Some h)\<rparr>
                  else fr)
        \<and> (if header_truthy (sv_header_data fr1) then nat_handle_header nv fr1 else Inr fr1) = Inr fr2
        \<longrightarrow>
        save nv fr =
          (case save_encode nv fr2 of
             Inl err \<Rightarrow> Inl err
           | Inr (bytes, hdr_out) \<Rightarrow>
               Inr (case sv_where fr2 of
                      W_File f \<Rightarrow> Written (sv_where fr2) bytes
                    | W_Url u \<Rightarrow> Written (sv_where fr2) bytes
                    | W_Blank \<Rightarrow> Returned bytes
                    | _ \<Rightarrow> Inserted_At_Tail (sv_where fr2) bytes)))"
  (is "_ \<longrightarrow> ?C")
proof (rule impI, elim conjE)
  assume m: "molded = nat_mold nv (sv_all fr) (sv_value fr) @ [newline]"
    and b: "body = nat_to_binary nv molded"
    and e: "enc = (\<lambda>d. if sv_method fr = M_Word ''script''
                  then nat_to_binary nv
                         (nat_mold64 nv (if sv_compress fr then D_Binary (nat_gzip nv d) else d))
                  else if sv_compress fr then nat_gzip nv d
                  else body)"
    and h: "hdr = (\<lambda>items. nat_to_binary nv (''REBOL'' @ '' '' @ nat_mold_header nv items @ [newline]))"
    and wl: "with_length =
       (\<lambda>items p. if sv_length fr
                   then (case nat_find nv items ''length'' of
                           None \<Rightarrow> None
                         | Some pos \<Rightarrow> Some (change_at items (pos + 1) (H_Integer (int (length p)))))
                   else Some items)"
  have c1: "sv_header_data fr = None \<longrightarrow>
        save_encode nv fr =
          (if sv_length fr then Inl Error_In_Native else Inr (enc (D_Text molded), None))"
    by (simp add: save_steps Let_def m b e)
  have c2: "sv_header_data fr = Some (H_Block items) \<and> nat_find nv items ''checksum'' = None \<longrightarrow>
        save_encode nv fr =
          (case with_length items (enc (D_Text molded)) of
             None \<Rightarrow> Inl Error_In_Native
           | Some items' \<Rightarrow> Inr (hdr items' @ enc (D_Text molded), Some (H_Block items')))"
    by (simp add: save_steps Let_def m b e h wl split: option.splits)
  have c3: "sv_header_data fr = Some (H_Block items) \<and> nat_find nv items ''checksum'' = Some tmp
        \<and> items1 = change_at items (tmp + 1) (H_Binary (nat_checksum_secure nv body)) \<longrightarrow>
        save_encode nv fr =
          (case with_length items1 (enc (D_Binary body)) of
             None \<Rightarrow> Inl Error_In_Native
           | Some items' \<Rightarrow> Inr (hdr items' @ enc (D_Binary body), Some (H_Block items')))"
    by (simp add: save_steps Let_def m b e h wl split: option.splits)
  have c4: "sv_header_data fr = Some h \<and> (\<forall>items. h \<noteq> H_Block items) \<longrightarrow>
        save_encode nv fr = Inl Error_In_Native"
    by (cases h) (simp_all add: save_steps Let_def)
  have c5: "\<not> sv_header fr \<and> is_file_or_url (sv_where fr)
        \<and> nat_file_type nv (sv_where fr) = Some ftype \<and> ftype \<noteq> ''rebol'' \<longrightarrow>
        save nv fr = Inr (Codec_Written (sv_where fr) ftype (sv_value fr))"
    by (simp add: save_def)
  have c6: "(sv_header fr \<or> \<not> is_file_or_url (sv_where fr) \<or> nat_file_type nv (sv_where fr) = None
         \<or> nat_file_type nv (sv_where fr) = Some ''rebol'')
        \<and> fr1 = (if sv_length fr \<or> method_truthy (sv_method fr)
                  then fr\<lparr>sv_header := True,
                          sv_header_data :=
                            (case sv_header_data fr of None \<Rightarrow> Some (H_Block []) | Some h \<Rightarrow> Some h)\<rparr>
                  else fr)
        \<and> (if header_truthy (sv_header_data fr1) then nat_handle_header nv fr1 else Inr fr1) = Inr fr2
        \<longrightarrow>
        save nv fr =
          (case save_encode nv fr2 of
             Inl err \<Rightarrow> Inl err
           | Inr (bytes, hdr_out) \<Rightarrow>
               Inr (case sv_where fr2 of
                      W_File f \<Rightarrow> Written (sv_where fr2) bytes
                    | W_Url u \<Rightarrow> Written (sv_where fr2) bytes
                    | W_Blank \<Rightarrow> Returned bytes
                    | _ \<Rightarrow> Inserted_At_Tail (sv_where fr2) bytes))"
    using save_not_codec [of fr nv fr1 fr2] by blast
  from c1 c2 c3 c4 c5 c6 show ?C
    by (intro conjI)
qed

theorem save_newline_then_checksum_then_encoding_witness:
  "save sample_natives sample_save_frame =
     Inr (Returned (sample_to_binary (''REBOL'' @ '' '' @ ''[]'' @ [newline])
                    @ rev (sample_to_binary (''ab'' @ [newline]))))
   \<and> save_encode sample_natives sample_length_frame =
     Inr (sample_to_binary (''REBOL'' @ '' '' @ ''[]'' @ [newline]) @ sample_to_binary (''ab'' @ [newline]),
          Some (H_Block [H_Set_Word ''length'', H_Integer 3]))"
proof -
  let ?nv = sample_natives
  let ?hdr = "\<lambda>items. nat_to_binary ?nv (''REBOL'' @ '' '' @ nat_mold_header ?nv items @ [newline])"
  let ?molded = "''ab'' @ [newline]"
  let ?body = "sample_to_binary (''ab'' @ [newline])"
  have ev: "nat_mold ?nv = sample_mold" "nat_to_binary ?nv = sample_to_binary"
    "nat_gzip ?nv = sample_gzip" "nat_find ?nv = sample_find"
    "nat_checksum_secure ?nv = sample_checksum" "nat_mold_header ?nv = sample_mold_header"
    "nat_handle_header ?nv = sample_handle_header"
    by (simp_all add: sample_natives_def)
  let ?fr = sample_save_frame
  let ?items = "[H_Set_Word ''checksum'', H_Logic True]"
  let ?items1 = "[H_Set_Word ''checksum'', H_Binary [3]]"
  note t = save_newline_then_checksum_then_encoding [where nv = ?nv and fr = ?fr
      and molded = ?molded and body = ?body and enc = "\<lambda>d. sample_gzip d" and hdr = ?hdr
      and with_length = "\<lambda>items p. Some items" and items = ?items and tmp = 0
      and ?items1.0 = ?items1 and ?fr1.0 = ?fr and ?fr2.0 = ?fr]
  have pre: "?molded = nat_mold ?nv (sv_all ?fr) (sv_value ?fr) @ [newline]
      \<and> ?body = nat_to_binary ?nv ?molded
      \<and> (\<lambda>d. sample_gzip d) = (\<lambda>d. if sv_method ?fr = M_Word ''script''
                  then nat_to_binary ?nv
                         (nat_mold64 ?nv (if sv_compress ?fr then D_Binary (nat_gzip ?nv d) else d))
                  else if sv_compress ?fr then nat_gzip ?nv d
                  else ?body)
      \<and> ?hdr = ?hdr
      \<and> (\<lambda>items p. Some items) =
       (\<lambda>items p. if sv_length ?fr
                   then (case nat_find ?nv items ''length'' of
                           None \<Rightarrow> None
                         | Some pos \<Rightarrow> Some (change_at items (pos + 1) (H_Integer (int (length p)))))
                   else Some items)"
    by (simp add: ev sample_save_frame_def sample_mold_def)
  have a: "sv_header_data ?fr = Some (H_Block ?items) \<and> nat_find ?nv ?items ''checksum'' = Some 0
      \<and> ?items1 = change_at ?items (0 + 1) (H_Binary (nat_checksum_secure ?nv ?body))"
    by (simp add: ev sample_save_frame_def change_at_def sample_checksum_def sample_to_binary_def)
  note t' = mp [OF t pre]
  from t' [THEN conjunct2, THEN conjunct2, THEN conjunct1, THEN mp, OF a]
  have enc: "save_encode ?nv ?fr =
      Inr (?hdr ?items1 @ sample_gzip (D_Binary ?body), Some (H_Block ?items1))"
    by simp
  have b: "(sv_header ?fr \<or> \<not> is_file_or_url (sv_where ?fr) \<or> nat_file_type ?nv (sv_where ?fr) = None
         \<or> nat_file_type ?nv (sv_where ?fr) = Some ''rebol'')
      \<and> ?fr = (if sv_length ?fr \<or> method_truthy (sv_method ?fr)
                  then ?fr\<lparr>sv_header := True,
                          sv_header_data :=
                            (case sv_header_data ?fr of None \<Rightarrow> Some (H_Block []) | Some h \<Rightarrow> Some h)\<rparr>
                  else ?fr)
      \<and> (if header_truthy (sv_header_data ?fr) then nat_handle_header ?nv ?fr else Inr ?fr) = Inr ?fr"
    by (simp add: ev sample_save_frame_def sample_handle_header_def)
  from t' [THEN conjunct2, THEN conjunct2, THEN conjunct2, THEN conjunct2, THEN conjunct2,
      THEN mp, OF b]
  have "save ?nv ?fr =
          (case save_encode ?nv ?fr of
             Inl err \<Rightarrow> Inl err
           | Inr (bytes, hdr_out) \<Rightarrow>
               Inr (case sv_where ?fr of
                      W_File f \<Rightarrow> Written (sv_where ?fr) bytes
                    | W_Url u \<Rightarrow> Written (sv_where ?fr) bytes
                    | W_Blank \<Rightarrow> Returned bytes
                    | _ \<Rightarrow> Inserted_At_Tail (sv_where ?fr) bytes))" .
  with enc have r1: "save ?nv ?fr =
     Inr (Returned (sample_to_binary (''REBOL'' @ '' '' @ ''[]'' @ [newline])
                    @ rev (sample_to_binary (''ab'' @ [newline]))))"
    by (simp add: ev sample_save_frame_def sample_gzip_def sample_mold_header_def)
  let ?fl = sample_length_frame
  let ?li = "[H_Set_Word ''length'', H_Logic True]"
  note u = save_newline_then_checksum_then_encoding [where nv = ?nv and fr = ?fl
      and molded = ?molded and body = ?body and enc = "\<lambda>d. ?body" and hdr = ?hdr
      and with_length = "\<lambda>items p. case sample_find items ''length'' of
                           None \<Rightarrow> None
                         | Some pos \<Rightarrow> Some (change_at items (pos + 1) (H_Integer (int (length p))))"
      and items = ?li]
  have pre2: "?molded = nat_mold ?nv (sv_all ?fl) (sv_value ?fl) @ [newline]
      \<and> ?body = nat_to_binary ?nv ?molded
      \<and> (\<lambda>d. ?body) = (\<lambda>d. if sv_method ?fl = M_Word ''script''
                  then nat_to_binary ?nv
                         (nat_mold64 ?nv (if sv_compress ?fl then D_Binary (nat_gzip ?nv d) else d))
                  else if sv_compress ?fl then nat_gzip ?nv d
                  else ?body)
      \<and> ?hdr = ?hdr
      \<and> (\<lambda>items p. case sample_find items ''length'' of
                           None \<Rightarrow> None
                         | Some pos \<Rightarrow> Some (change_at items (pos + 1) (H_Integer (int (length p))))) =
       (\<lambda>items p. if sv_length ?fl
                   then (case nat_find ?nv items ''length'' of
                           None \<Rightarrow> None
                         | Some pos \<Rightarrow> Some (change_at items (pos + 1) (H_Integer (int (length p)))))
                   else Some items)"
    by (simp add: ev sample_length_frame_def sample_mold_def)
  have c: "sv_header_data ?fl = Some (H_Block ?li) \<and> nat_find ?nv ?li ''checksum'' = None"
    by (simp add: ev sample_length_frame_def)
  from mp [OF u pre2, THEN conjunct2, THEN conjunct1, THEN mp, OF c]
  have "save_encode ?nv ?fl =
      (case (case sample_find ?li ''length'' of
                           None \<Rightarrow> None
                         | Some pos \<Rightarrow> Some (change_at ?li (pos + 1) (H_Integer (int (length ?body))))) of
             None \<Rightarrow> Inl Error_In_Native
           | Some items' \<Rightarrow> Inr (?hdr items' @ ?body, Some (H_Block items')))" .
  then have r2: "save_encode ?nv ?fl =
     Inr (sample_to_binary (''REBOL'' @ '' '' @ ''[]'' @ [newline]) @ sample_to_binary (''ab'' @ [newline]),
          Some (H_Block [H_Set_Word ''length'', H_Integer 3]))"
    by (simp add: ev change_at_def sample_mold_header_def sample_to_binary_def)
  from r1 r2 show ?thesis by simp
qed

subsection \<open>Series: memory\<close>



lemma read_write_after:
  "write_at buf off bs = Some buf' \<Longrightarrow> off + length bs \<le> o' \<Longrightarrow> read_at buf' o' n = read_at buf o' n"
  by (auto simp: write_at_def read_at_def split: if_splits)



lemma read_at_length: "read_at buf o' m = Some bs \<Longrightarrow> length bs = m"
  by (auto simp: read_at_def split: if_splits)




lemma memcpy_after:
  "memcpy dst d src s n = Some dst' \<Longrightarrow> d + n \<le> o' \<Longrightarrow> read_at dst' o' m = read_at dst o' m"
  by (auto simp: memcpy_def read_write_after read_at_length split: option.splits)



subsection \<open>Series: counts that do not wrap\<close>

lemma REBCNT_id: "n < 2 ^ 32 \<Longrightarrow> REBCNT n = n"
  by (simp add: REBCNT_def)


lemma minus_REBCNT_id: "b \<le> a \<Longrightarrow> a < 2 ^ 32 \<Longrightarrow> minus_REBCNT a b = a - b"
proof -
  assume ba: "b \<le> a" and a: "a < 2 ^ 32"
  then have "b < 2 ^ 32" by linarith
  then have b: "REBCNT b = b" by (rule REBCNT_id)
  have e: "a + 2 ^ 32 - b = (a - b) + 2 ^ 32" using ba by linarith
  have l: "a - b < 2 ^ 32" using a by linarith
  have "minus_REBCNT a b = REBCNT (a - b + 2 ^ 32)"
    unfolding minus_REBCNT_def b e ..
  also have "\<dots> = (a - b + 2 ^ 32) mod 2 ^ 32" by (simp only: REBCNT_def)
  also have "\<dots> = (a - b) mod 2 ^ 32" by (rule mod_add_self2)
  also have "\<dots> = a - b" using l by (rule mod_less)
  finally show ?thesis .
qed

lemma nowrap:
  assumes idx: "index \<le> L" and w: "0 < (w::nat)" and b: "(L + delta + 1) * w < 2 ^ 32"
  shows "REBCNT (index * w) = index * w"
    and "REBCNT (delta * w) = delta * w"
    and "REBCNT (L * w) = L * w"
    and "REBCNT (L * w + delta * w + w) = L * w + delta * w + w"
    and "REBCNT (L + delta) = L + delta"
    and "minus_REBCNT (L * w) (index * w) = L * w - index * w"
    and "REBCNT (w * delta) = w * delta"
proof -
  have e: "(L + delta + 1) * w = L * w + delta * w + w" by (simp only: add_mult_distrib mult_1)
  have i: "index * w \<le> L * w" using idx by (rule mult_le_mono1)
  have t: "L * w + delta * w + w < 2 ^ 32" using b unfolding e .
  have "(L + delta + 1) * 1 \<le> (L + delta + 1) * w" using w by (intro mult_le_mono2) linarith
  then have "L + delta + 1 \<le> (L + delta + 1) * w" by (simp only: mult_1_right)
  then have ld: "L + delta < 2 ^ 32" using b by linarith
  have lw: "L * w < 2 ^ 32" using t by linarith
  show "REBCNT (index * w) = index * w" using i t by (intro REBCNT_id) linarith
  show "REBCNT (delta * w) = delta * w" using t by (intro REBCNT_id) linarith
  show "REBCNT (L * w) = L * w" using lw by (rule REBCNT_id)
  show "REBCNT (L * w + delta * w + w) = L * w + delta * w + w" using t by (rule REBCNT_id)
  show "REBCNT (L + delta) = L + delta" using ld by (rule REBCNT_id)
  show "minus_REBCNT (L * w) (index * w) = L * w - index * w"
    using i lw by (rule minus_REBCNT_id)
  have "w * delta = delta * w" by (rule mult.commute)
  then have "w * delta < 2 ^ 32" using t by linarith
  then show "REBCNT (w * delta) = w * delta" by (rule REBCNT_id)
qed

subsection \<open>Series: what each path of the expansion does to the elements\<close>









lemma rest_bound:
  assumes ok: "series_ok s" and r: "SER_REST s = Inr rest"
  shows "rest * SER_WIDE s < 2 ^ 32"
proof (cases "content s")
  case (Dynamic d)
  let ?b = "(dyn_bias d div 2 ^ 16) mod 2 ^ 16"
  from ok Dynamic have la: "length (dyn_alloc d) = (dyn_rest d + ?b) * SER_WIDE s"
    and lt: "length (dyn_alloc d) < 2 ^ 32"
    by (simp_all add: series_ok_def)
  have le: "dyn_rest d * SER_WIDE s \<le> (dyn_rest d + ?b) * SER_WIDE s"
    by (intro mult_le_mono1) simp
  from r Dynamic have rr: "rest = dyn_rest d" by (simp add: SER_REST_def)
  show ?thesis unfolding rr using le la lt by linarith
next
  case (Fixed n bytes)
  show ?thesis
  proof (cases "IS_SER_ARRAY s")
    case True
    with r Fixed have "rest = 2" by (simp add: SER_REST_def)
    moreover from True have "SER_WIDE s = 32"
      by (simp add: IS_SER_ARRAY_def SER_WIDE_def sizeof_REBVAL_def)
    ultimately show ?thesis by simp
  next
    case False
    with r Fixed have "rest = sizeof_content div SER_WIDE s"
      by (auto simp: SER_REST_def split: if_splits)
    then have "rest * SER_WIDE s \<le> sizeof_content" by simp
    then show ?thesis by (simp add: sizeof_content_def sizeof_REBVAL_def)
  qed
qed


subsection \<open>Series: the expansion of a well-formed series stays inside its blocks\<close>


















subsection \<open>Series: expansion\<close>

lemmas series_eval = Expand_Series_def head_bias_covers_def Expand_Series_realloc_def Expand_Series_in_place_def
  Expand_Series_head_def Did_Series_Data_Alloc_def TERM_SERIES_def SET_SERIES_LEN_def
  set_data_block_def SER_DATA_RAW_def SER_LEN_def SER_WIDE_def SER_REST_def SER_BIAS_def
  SER_TOTAL_def SER_SUB_BIAS_def IS_SER_DYNAMIC_def IS_SER_ARRAY_def LEN_BYTE_OR_255_def
  memmove_def memcpy_def read_at_def write_at_def sizeof_content_def sizeof_REBVAL_def Let_def
  REBCNT_def minus_REBCNT_def



lemma sample_fixed_full_facts:
  "series_ok sample_fixed_full" "SER_LEN sample_fixed_full = 2" "flag_fixed_size sample_fixed_full"
  "\<not> head_bias_covers sample_fixed_full 1 1" "SER_REST sample_fixed_full = Inr 3"
  by (simp_all add: series_ok_def sample_fixed_full_def SER_WIDE_def SER_LEN_def
      head_bias_covers_def SER_REST_def)



text \<open>
  Where the fixed-size flag is looked at: a well-formed fixed-size series
  and a positive delta below \<open>2 ^ 31\<close> give the locked-series error whenever
  the expansion needs a new allocation, that is, when it is not a head
  insertion covered by the bias and the capacity does not hold the length,
  the delta and a terminator.
\<close>

lemma fixed_size_locked_when_allocating:
  assumes ok: "series_ok s" and idx: "index \<le> SER_LEN s" and fx: "flag_fixed_size s"
    and d: "0 < delta" "delta < 2 ^ 31"
    and bound: "(SER_LEN s + delta + 1) * SER_WIDE s < 2 ^ 32"
    and nh: "\<not> head_bias_covers s index delta"
    and r: "SER_REST s = Inr rest" and full: "rest < SER_LEN s + delta + 1"
  shows "Expand_Series Try_Alloc prior sp s index delta = Inl Error_Locked_Series_Raw"
proof -
  from d have nb: "delta div 2 ^ 31 = 0" by simp
  from ok have w: "0 < SER_WIDE s" by (simp add: series_ok_def)
  note nw = nowrap [OF idx w bound]
  have rw: "REBCNT (rest * SER_WIDE s) = rest * SER_WIDE s"
    using rest_bound [OF ok r] by (rule REBCNT_id)
  from full w have "rest * SER_WIDE s < (SER_LEN s + delta + 1) * SER_WIDE s"
    by (rule mult_less_mono1)
  then have nr: "\<not> SER_LEN s * SER_WIDE s + delta * SER_WIDE s + SER_WIDE s \<le> rest * SER_WIDE s"
    by (simp add: algebra_simps)
  show ?thesis
    using idx d nb nh r nr fx
    by (simp add: Expand_Series_def Expand_Series_realloc_def Let_def nw rw)
qed

text \<open>
  C7.  A series marked fixed-size is not always refused: the flag is tested
  only where a new allocation is about to be made.  The fixed-size series
  of two bytes with a capacity of six, expanded by one at index 1, is
  expanded in place to three bytes and no error is raised; the same series
  with a capacity of three gives the locked-series error.
\<close>

theorem expand_fixed_size_series_in_place:
  "flag_fixed_size sample_fixed_size
   \<and> series_ok sample_fixed_size
   \<and> Expand_Series sample_Try_Alloc [1, 0] 7 sample_fixed_size 1 1 =
       Inr (sample_fixed_size\<lparr>content := Dynamic \<lparr>dyn_alloc = [1, 2, 2, 0, 0xAA, 0xAA],
              dyn_data = 0, dyn_len = 3, dyn_rest = 6, dyn_bias = 0\<rparr>\<rparr>, [1, 0])
   \<and> flag_fixed_size sample_fixed_full
   \<and> Expand_Series sample_Try_Alloc [1, 0] 7 sample_fixed_full 1 1 = Inl Error_Locked_Series_Raw"
proof -
  have a: "flag_fixed_size sample_fixed_size" "series_ok sample_fixed_size"
    by (simp_all add: sample_fixed_size_def series_ok_def SER_WIDE_def)
  have b: "Expand_Series sample_Try_Alloc [1, 0] 7 sample_fixed_size 1 1 =
       Inr (sample_fixed_size\<lparr>content := Dynamic \<lparr>dyn_alloc = [1, 2, 2, 0, 0xAA, 0xAA],
              dyn_data = 0, dyn_len = 3, dyn_rest = 6, dyn_bias = 0\<rparr>\<rparr>, [1, 0])"
    by (simp add: series_eval sample_fixed_size_def)
  have c: "SER_LEN sample_fixed_full = 2" "SER_WIDE sample_fixed_full = 1"
    by (simp_all add: sample_fixed_full_def SER_LEN_def SER_WIDE_def)
  have "Expand_Series sample_Try_Alloc [1, 0] 7 sample_fixed_full 1 1 = Inl Error_Locked_Series_Raw"
    using sample_fixed_full_facts
    by (intro fixed_size_locked_when_allocating [where rest = 3]) (simp_all add: c)
  with a b sample_fixed_full_facts(3) show ?thesis by simp
qed

end
